theory Spec2Isabelle
  imports Main "HOL-Library.Sublist"
begin

section \<open>Values, exceptions and observable events\<close>

text \<open>
  The program is a single Python module, \<^verbatim>\<open>podai.py\<close>: a class \<^verbatim>\<open>AutonomousAI\<close> holding
  a memory list, a goal list and a table of action handlers, a background coroutine
  \<^verbatim>\<open>ai_loop\<close>, and four HTTP endpoints. The values that flow through it are what
  \<^verbatim>\<open>json.loads\<close> produces and what the handlers build: \<^verbatim>\<open>None\<close>, booleans, integers,
  floats, strings, lists and dictionaries with string keys. A float is carried around but
  never computed with, so it is identified by its \<^verbatim>\<open>repr\<close>. A dictionary is an association
  list in insertion order.
\<close>

datatype pyval =
    PNone
  | PBool bool
  | PInt int
  | PFloat string
  | PStr string
  | PList "pyval list"
  | PDict "(string \<times> pyval) list"

text \<open>
  The exceptions the interpreter itself raises in this module are \<^verbatim>\<open>TypeError\<close> (for the
  reasons listed) and \<^verbatim>\<open>KeyError\<close>. \<^verbatim>\<open>json.JSONDecodeError\<close> is the one class the module
  names in an \<^verbatim>\<open>except\<close> clause. Everything else a collaborator raises (the Docker SDK,
  the language model client, \<^verbatim>\<open>bytes.decode\<close>, and \<^verbatim>\<open>json.loads\<close> when it fails with
  \<^verbatim>\<open>RecursionError\<close> on deep nesting or a plain \<^verbatim>\<open>ValueError\<close> on an overlong number) is
  \<open>Raised\<close> with the class name and the message. All of them are instances of Python's
  \<^verbatim>\<open>Exception\<close>; signals that are not (\<^verbatim>\<open>KeyboardInterrupt\<close>, task cancellation at
  shutdown) are outside the model.
\<close>

datatype type_error =
    NotSubscriptable
  | Unhashable
  | NotAMapping
  | MultipleValues string
  | UnexpectedKeyword string
  | MissingArguments "string list"
  | NotAwaitable
  | JoinNonStr nat

datatype exn =
    TypeError type_error
  | KeyError string
  | JSONDecodeError string
  | Raised string string

text \<open>
  What the program does to the outside is recorded in a trace: a record sent to the logger,
  the argument of \<^verbatim>\<open>asyncio.sleep\<close>, and the name of every call made to a collaborator
  (the Docker client or the language model).
\<close>

datatype event =
    LogInfo string
  | LogError string
  | Sleep nat
  | Call string

text \<open>
  A container object of the Docker SDK, as far as the module reads it. Reading
  \<^verbatim>\<open>c.image\<close> asks the daemon again and can fail, so that attribute is a result.
\<close>

record container =
  cid :: string
  cname :: string
  cstatus :: string
  cimage_tags :: "exn + string list"

type_synonym handle = string
type_synonym bytes = string
type_synonym kwargs = "(string \<times> pyval) list"

section \<open>The collaborators\<close>

text \<open>
  Nothing of the Docker daemon, the language model, the \<^verbatim>\<open>json\<close> module, the clock or the
  interpreter's \<^verbatim>\<open>str\<close> is in the repository. They are parameters: a record of functions
  over a world \<open>'w\<close> that the module never inspects. A call returns the world it leaves
  behind together with a value or the exception it raised.
\<close>

record 'w env =
  docker_containers_list :: "'w \<Rightarrow> (exn + container list) \<times> 'w"
  docker_images_list :: "'w \<Rightarrow> (exn + string list list) \<times> 'w"
  docker_networks_list :: "'w \<Rightarrow> (exn + string list) \<times> 'w"
  docker_volumes_list :: "'w \<Rightarrow> (exn + string list) \<times> 'w"
  docker_containers_run :: "pyval \<Rightarrow> pyval \<Rightarrow> kwargs \<Rightarrow> 'w \<Rightarrow> (exn + container) \<times> 'w"
  docker_containers_get :: "pyval \<Rightarrow> 'w \<Rightarrow> (exn + handle) \<times> 'w"
  docker_remove :: "handle \<Rightarrow> 'w \<Rightarrow> (exn + unit) \<times> 'w"
  docker_update :: "handle \<Rightarrow> kwargs \<Rightarrow> 'w \<Rightarrow> (exn + unit) \<times> 'w"
  docker_logs :: "handle \<Rightarrow> pyval \<Rightarrow> 'w \<Rightarrow> (exn + bytes) \<times> 'w"
  docker_exec_run :: "handle \<Rightarrow> pyval \<Rightarrow> 'w \<Rightarrow> (exn + int \<times> bytes) \<times> 'w"
  llm_ainvoke :: "string \<Rightarrow> 'w \<Rightarrow> (exn + string) \<times> 'w"
  json_loads :: "string \<Rightarrow> exn + pyval"
  json_dumps :: "nat option \<Rightarrow> pyval \<Rightarrow> string"
  builtin_str :: "pyval \<Rightarrow> string"
  exception_str :: "exn \<Rightarrow> string"
  bytes_decode :: "bytes \<Rightarrow> exn + string"
  now_isoformat :: "'w \<Rightarrow> string"

section \<open>State and effects\<close>

text \<open>
  The mutable state of the process: the two lists of the one \<^verbatim>\<open>AutonomousAI\<close> instance,
  the world of the collaborators, and the trace.
\<close>

record 'w state =
  memory :: "pyval list"
  goals :: "pyval list"
  world :: 'w
  trace :: "event list"

type_synonym ('a, 'w) eff = "'w state \<Rightarrow> (exn + 'a) \<times> 'w state"

definition return_eff :: "'a \<Rightarrow> ('a, 'w) eff" where
  "return_eff a s = (Inr a, s)"

definition raise_eff :: "exn \<Rightarrow> ('a, 'w) eff" where
  "raise_eff e s = (Inl e, s)"

definition bind_eff :: "('a, 'w) eff \<Rightarrow> ('a \<Rightarrow> ('b, 'w) eff) \<Rightarrow> ('b, 'w) eff" where
  "bind_eff m f s = (case m s of (Inl e, s') \<Rightarrow> (Inl e, s') | (Inr a, s') \<Rightarrow> f a s')"

definition lift_eff :: "exn + 'a \<Rightarrow> ('a, 'w) eff" where
  "lift_eff r s = (r, s)"

definition emit :: "event \<Rightarrow> (unit, 'w) eff" where
  "emit ev s = (Inr (), s\<lparr>trace := trace s @ [ev]\<rparr>)"

definition external :: "string \<Rightarrow> ('w \<Rightarrow> (exn + 'a) \<times> 'w) \<Rightarrow> ('a, 'w) eff" where
  "external label f s =
     (case f (world s) of (r, w') \<Rightarrow> (r, s\<lparr>world := w', trace := trace s @ [Call label]\<rparr>))"

definition try_except :: "('a, 'w) eff \<Rightarrow> (exn \<Rightarrow> ('a, 'w) eff) \<Rightarrow> ('a, 'w) eff" where
  "try_except m h s = (case m s of (Inl e, s') \<Rightarrow> h e s' | (Inr a, s') \<Rightarrow> (Inr a, s'))"

section \<open>Interpreter primitives the module relies on\<close>

text \<open>\<^verbatim>\<open>d[k]\<close> with a string key: only a dictionary can answer.\<close>

fun subscript :: "pyval \<Rightarrow> string \<Rightarrow> exn + pyval" where
  "subscript (PDict kvs) k = (case map_of kvs k of Some v \<Rightarrow> Inr v | None \<Rightarrow> Inl (KeyError k))"
| "subscript v k = Inl (TypeError NotSubscriptable)"

text \<open>\<^verbatim>\<open>xs[i:]\<close>: a negative start counts from the end and is clipped at the front.\<close>

definition slice_from :: "int \<Rightarrow> 'a list \<Rightarrow> 'a list" where
  "slice_from i xs =
     (let n = int (length xs);
          start = (if i < 0 then max (n + i) 0 else min i n)
      in drop (nat start) xs)"

text \<open>A value inside an f-string: a string stands for itself, the rest goes through \<^verbatim>\<open>str\<close>.\<close>

definition format_value :: "'w env \<Rightarrow> pyval \<Rightarrow> string" where
  "format_value env v = (case v of PStr s \<Rightarrow> s | _ \<Rightarrow> builtin_str env v)"

text \<open>\<^verbatim>\<open>"\n".join(xs)\<close>: the first item that is not a string raises.\<close>

fun str_items :: "nat \<Rightarrow> pyval list \<Rightarrow> exn + string list" where
  "str_items i [] = Inr []"
| "str_items i (PStr s # vs) =
     (case str_items (Suc i) vs of Inl e \<Rightarrow> Inl e | Inr ss \<Rightarrow> Inr (s # ss))"
| "str_items i (v # vs) = Inl (TypeError (JoinNonStr i))"

fun intercalate :: "string \<Rightarrow> string list \<Rightarrow> string" where
  "intercalate sep [] = []"
| "intercalate sep [s] = s"
| "intercalate sep (s # t # ss) = s @ sep @ intercalate sep (t # ss)"

definition newline_join :: "pyval list \<Rightarrow> exn + string" where
  "newline_join vs =
     (case str_items 0 vs of Inl e \<Rightarrow> Inl e | Inr ss \<Rightarrow> Inr (intercalate ''\<newline>'' ss))"

text \<open>
  Binding a keyword-only call \<^verbatim>\<open>f(**params)\<close> of a bound method with the given required
  names, defaults, and possibly a \<^verbatim>\<open>**kwargs\<close> catch-all. Keywords are taken in order: one
  named \<^verbatim>\<open>self\<close> collides with the receiver, one that matches nothing is rejected unless the
  catch-all takes it. Only then are the required names checked.
\<close>

record signature =
  required :: "string list"
  defaults :: "(string \<times> pyval) list"
  var_keyword :: bool

fun first_bad_keyword :: "signature \<Rightarrow> string list \<Rightarrow> type_error option" where
  "first_bad_keyword sg [] = None"
| "first_bad_keyword sg (k # ks) =
     (if k = ''self'' then Some (MultipleValues ''self'')
      else if k \<notin> set (required sg) \<and> k \<notin> set (map fst (defaults sg)) \<and> \<not> var_keyword sg
        then Some (UnexpectedKeyword k)
      else first_bad_keyword sg ks)"

record bound_args =
  named :: "string \<Rightarrow> pyval"
  extra :: kwargs

definition bind_arguments :: "signature \<Rightarrow> kwargs \<Rightarrow> exn + bound_args" where
  "bind_arguments sg params =
     (case first_bad_keyword sg (map fst params) of
        Some err \<Rightarrow> Inl (TypeError err)
      | None \<Rightarrow>
         (case filter (\<lambda>r. map_of params r = None) (required sg) of
            [] \<Rightarrow> Inr \<lparr>named = (\<lambda>k. case map_of params k of
                                      Some v \<Rightarrow> v
                                    | None \<Rightarrow> (case map_of (defaults sg) k of
                                                 Some d \<Rightarrow> d | None \<Rightarrow> PNone)),
                      extra = filter (\<lambda>(k, v). k \<notin> set (required sg) \<and>
                                                k \<notin> set (map fst (defaults sg))) params\<rparr>
          | missing \<Rightarrow> Inl (TypeError (MissingArguments missing))))"

section \<open>The action handlers\<close>

text \<open>
  The seven methods the dispatch table points to. Each of the Docker handlers fetches or
  creates a container and performs one operation on it; a failure of the SDK propagates.
  Parameters are annotated \<^verbatim>\<open>str\<close> or \<^verbatim>\<open>int\<close> in the source, which Python does not enforce:
  whatever value arrives is handed on.
\<close>

definition create_container :: "'w env \<Rightarrow> pyval \<Rightarrow> pyval \<Rightarrow> kwargs \<Rightarrow> (pyval, 'w) eff" where
  "create_container env name img kw =
     (if ''detach'' \<in> set (map fst kw) then raise_eff (TypeError (MultipleValues ''detach''))
      else bind_eff (external ''containers.run'' (docker_containers_run env img name kw))
        (\<lambda>c. return_eff (PDict [(''message'',
           PStr (''Container created: '' @ cname c @ '' ('' @ take 12 (cid c) @ '')''))])))"

definition delete_container :: "'w env \<Rightarrow> pyval \<Rightarrow> (pyval, 'w) eff" where
  "delete_container env name =
     bind_eff (external ''containers.get'' (docker_containers_get env name))
       (\<lambda>h. bind_eff (external ''container.remove'' (docker_remove env h))
         (\<lambda>_. return_eff (PDict [(''message'',
            PStr (''Container deleted: '' @ format_value env name))])))"

definition modify_container :: "'w env \<Rightarrow> pyval \<Rightarrow> kwargs \<Rightarrow> (pyval, 'w) eff" where
  "modify_container env name kw =
     bind_eff (external ''containers.get'' (docker_containers_get env name))
       (\<lambda>h. bind_eff (external ''container.update'' (docker_update env h kw))
         (\<lambda>_. return_eff (PDict [(''message'',
            PStr (''Container modified: '' @ format_value env name))])))"

definition set_goal :: "'w env \<Rightarrow> pyval \<Rightarrow> (pyval, 'w) eff" where
  "set_goal env goal s =
     (Inr (PDict [(''message'', PStr (''New goal set: '' @ format_value env goal))]),
      s\<lparr>goals := goals s @ [goal]\<rparr>)"

definition list_containers :: "'w env \<Rightarrow> (pyval, 'w) eff" where
  "list_containers env =
     bind_eff (external ''containers.list'' (docker_containers_list env))
       (\<lambda>cs. return_eff (PDict [(''containers'',
          PList (map (\<lambda>c. PDict [(''id'', PStr (take 12 (cid c))),
                                  (''name'', PStr (cname c)),
                                  (''status'', PStr (cstatus c))]) cs))]))"

definition get_container_logs :: "'w env \<Rightarrow> pyval \<Rightarrow> pyval \<Rightarrow> (pyval, 'w) eff" where
  "get_container_logs env name lines =
     bind_eff (external ''containers.get'' (docker_containers_get env name))
       (\<lambda>h. bind_eff (external ''container.logs'' (docker_logs env h lines))
         (\<lambda>raw. bind_eff (lift_eff (bytes_decode env raw))
           (\<lambda>logs. return_eff (PDict [(''logs'', PStr logs)]))))"

definition execute_in_container :: "'w env \<Rightarrow> pyval \<Rightarrow> pyval \<Rightarrow> (pyval, 'w) eff" where
  "execute_in_container env name command =
     bind_eff (external ''containers.get'' (docker_containers_get env name))
       (\<lambda>h. bind_eff (external ''container.exec_run'' (docker_exec_run env h command))
         (\<lambda>(exit_code, raw). bind_eff (lift_eff (bytes_decode env raw))
           (\<lambda>output. return_eff (PDict [(''exit_code'', PInt exit_code),
                                         (''output'', PStr output)]))))"

section \<open>The dispatch table and \<^verbatim>\<open>execute_action\<close>\<close>

datatype handler =
    Create_container
  | Delete_container
  | Modify_container
  | Set_goal
  | List_containers
  | Get_container_logs
  | Execute_in_container

definition action_dispatch :: "(string \<times> handler) list" where
  "action_dispatch =
     [(''create_container'', Create_container),
      (''delete_container'', Delete_container),
      (''modify_container'', Modify_container),
      (''set_goal'', Set_goal),
      (''list_containers'', List_containers),
      (''get_container_logs'', Get_container_logs),
      (''execute_in_container'', Execute_in_container)]"

fun handler_signature :: "handler \<Rightarrow> signature" where
  "handler_signature Create_container =
     \<lparr>required = [''name'', ''image''], defaults = [], var_keyword = True\<rparr>"
| "handler_signature Delete_container =
     \<lparr>required = [''name''], defaults = [], var_keyword = False\<rparr>"
| "handler_signature Modify_container =
     \<lparr>required = [''name''], defaults = [], var_keyword = True\<rparr>"
| "handler_signature Set_goal =
     \<lparr>required = [''goal''], defaults = [], var_keyword = False\<rparr>"
| "handler_signature List_containers =
     \<lparr>required = [], defaults = [], var_keyword = False\<rparr>"
| "handler_signature Get_container_logs =
     \<lparr>required = [''name''], defaults = [(''lines'', PInt 50)], var_keyword = False\<rparr>"
| "handler_signature Execute_in_container =
     \<lparr>required = [''name'', ''command''], defaults = [], var_keyword = False\<rparr>"

text \<open>
  Calling an \<^verbatim>\<open>async def\<close> method binds the arguments and yields a coroutine whose body has
  not run yet. Calling a plain \<^verbatim>\<open>def\<close> method runs the body at once and yields its value.
  Six handlers are \<^verbatim>\<open>async def\<close>; \<^verbatim>\<open>set_goal\<close> is a plain \<^verbatim>\<open>def\<close>.
\<close>

datatype 'w called = Coroutine "(pyval, 'w) eff" | Plain pyval

definition call_handler :: "'w env \<Rightarrow> handler \<Rightarrow> kwargs \<Rightarrow> ('w called, 'w) eff" where
  "call_handler env h params =
     bind_eff (lift_eff (bind_arguments (handler_signature h) params))
       (\<lambda>b. case h of
          Create_container \<Rightarrow>
            return_eff (Coroutine (create_container env (named b ''name'') (named b ''image'') (extra b)))
        | Delete_container \<Rightarrow>
            return_eff (Coroutine (delete_container env (named b ''name'')))
        | Modify_container \<Rightarrow>
            return_eff (Coroutine (modify_container env (named b ''name'') (extra b)))
        | Set_goal \<Rightarrow>
            bind_eff (set_goal env (named b ''goal'')) (\<lambda>v. return_eff (Plain v))
        | List_containers \<Rightarrow>
            return_eff (Coroutine (list_containers env))
        | Get_container_logs \<Rightarrow>
            return_eff (Coroutine (get_container_logs env (named b ''name'') (named b ''lines'')))
        | Execute_in_container \<Rightarrow>
            return_eff (Coroutine (execute_in_container env (named b ''name'') (named b ''command''))))"

text \<open>\<^verbatim>\<open>await x\<close>: a coroutine runs to its result; any other object cannot be awaited.\<close>

definition await :: "'w called \<Rightarrow> (pyval, 'w) eff" where
  "await c = (case c of Coroutine m \<Rightarrow> m | Plain v \<Rightarrow> raise_eff (TypeError NotAwaitable))"

text \<open>\<^verbatim>\<open>self.action_dispatch.get(action)\<close>: the key must be hashable; the keys are strings.\<close>

fun dispatch_get :: "pyval \<Rightarrow> exn + handler option" where
  "dispatch_get (PStr a) = Inr (map_of action_dispatch a)"
| "dispatch_get (PList vs) = Inl (TypeError Unhashable)"
| "dispatch_get (PDict kvs) = Inl (TypeError Unhashable)"
| "dispatch_get v = Inr None"

text \<open>\<^verbatim>\<open>**parameters\<close>: the operand must be a mapping.\<close>

fun unpack_mapping :: "pyval \<Rightarrow> exn + kwargs" where
  "unpack_mapping (PDict kvs) = Inr kvs"
| "unpack_mapping v = Inl (TypeError NotAMapping)"

definition execute_action :: "'w env \<Rightarrow> pyval \<Rightarrow> pyval \<Rightarrow> (pyval, 'w) eff" where
  "execute_action env action parameters =
     bind_eff (lift_eff (dispatch_get action))
       (\<lambda>action_function. case action_function of
          Some h \<Rightarrow>
            bind_eff (lift_eff (unpack_mapping parameters))
              (\<lambda>kvs. bind_eff (call_handler env h kvs) await)
        | None \<Rightarrow>
            return_eff (PDict [(''error'',
              PStr (''Unknown action: '' @ format_value env action))]))"

section \<open>Observing the system and asking the model: \<^verbatim>\<open>think\<close>\<close>

fun container_states :: "container list \<Rightarrow> exn + pyval list" where
  "container_states [] = Inr []"
| "container_states (c # cs) =
     (case cimage_tags c of
        Inl e \<Rightarrow> Inl e
      | Inr tags \<Rightarrow>
         (case container_states cs of
            Inl e \<Rightarrow> Inl e
          | Inr ds \<Rightarrow> Inr (PDict [(''id'', PStr (take 12 (cid c))),
                                   (''name'', PStr (cname c)),
                                   (''status'', PStr (cstatus c)),
                                   (''image'', PList (map PStr tags))] # ds)))"

definition get_system_state :: "'w env \<Rightarrow> (pyval, 'w) eff" where
  "get_system_state env =
     bind_eff (external ''containers.list'' (docker_containers_list env))
       (\<lambda>containers. bind_eff (lift_eff (container_states containers))
         (\<lambda>cs. bind_eff (external ''images.list'' (docker_images_list env))
           (\<lambda>images. bind_eff (external ''networks.list'' (docker_networks_list env))
             (\<lambda>networks. bind_eff (external ''volumes.list'' (docker_volumes_list env))
               (\<lambda>volumes. return_eff (PDict
                  [(''containers'', PList cs),
                   (''images'', PList (map (\<lambda>tags. PList (map PStr tags)) images)),
                   (''networks'', PList (map PStr networks)),
                   (''volumes'', PList (map PStr volumes))]))))))"

text \<open>The slice of the memory that goes into the prompt: \<^verbatim>\<open>self.memory[-10:]\<close>.\<close>

definition memory_context :: "pyval list \<Rightarrow> pyval list" where
  "memory_context mem = slice_from (- 10) mem"

definition memory_str :: "'w env \<Rightarrow> pyval list \<Rightarrow> string" where
  "memory_str env mem =
     (if mem \<noteq> [] then json_dumps env None (PList (memory_context mem))
      else ''No previous actions'')"

definition goals_str :: "pyval list \<Rightarrow> exn + string" where
  "goals_str gs = (if gs \<noteq> [] then newline_join gs else Inr ''No specific goals set'')"

definition prompt :: "string \<Rightarrow> string \<Rightarrow> string \<Rightarrow> string" where
  \<open>prompt system_state_json memory_text goals_text =
     ''\<newline>'' @
     ''        You are an autonomous AI responsible for managing a Docker container environment.\<newline>'' @
     ''        Your goal is to optimize the system, create interesting projects, and maintain a well-organized container ecosystem.\<newline>'' @
     ''\<newline>'' @
     ''        Current system state:\<newline>'' @
     ''        '' @ system_state_json @ ''\<newline>'' @
     ''\<newline>'' @
     ''        Recent memory:\<newline>'' @
     ''        '' @ memory_text @ ''\<newline>'' @
     ''\<newline>'' @
     ''        Current goals:\<newline>'' @
     ''        '' @ goals_text @ ''\<newline>'' @
     ''\<newline>'' @
     ''        Based on the current state, your memory, and goals, decide on the next action to take.\<newline>'' @
     ''        You can create, modify, or delete containers, set new goals, or perform any Docker-related operation.\<newline>'' @
     ''        Be creative, but also maintain system stability and efficiency.\<newline>'' @
     ''\<newline>'' @
     ''        Respond with a JSON object containing:\<newline>'' @
     ''        1. "thought_process": Your reasoning for the decision\<newline>'' @
     ''        2. "action": The action to perform (e.g., "create_container", "set_goal", "modify_container", etc.)\<newline>'' @
     ''        3. "parameters": Any parameters needed for the action\<newline>'' @
     ''        4. "explanation": A user-friendly explanation of your decision\<newline>'' @
     ''\<newline>'' @
     ''        Remember, you have full control over the container environment. Be innovative!\<newline>'' @
     ''        ''\<close>

text \<open>
  The first half of \<^verbatim>\<open>think\<close>: snapshot, prompt, one call to the model. It returns the
  model's text. A failing snapshot, a goal that is not a string, or a failing model call
  raises.
\<close>

definition think_request :: "'w env \<Rightarrow> (string, 'w) eff" where
  "think_request env =
     bind_eff (get_system_state env)
       (\<lambda>system_state s.
          bind_eff (lift_eff (goals_str (goals s)))
            (\<lambda>goals_text.
               external ''llm.ainvoke''
                 (llm_ainvoke env
                    (prompt (json_dumps env (Some 2) system_state)
                            (memory_str env (memory s)) goals_text))) s)"

definition fallback_decision :: pyval where
  "fallback_decision =
     PDict [(''thought_process'', PStr ''Error in decision making''),
            (''action'', PStr ''none''),
            (''parameters'', PDict []),
            (''explanation'', PStr ''There was an error in processing the AI's response.'')]"

text \<open>
  The second half of \<^verbatim>\<open>think\<close>, its \<^verbatim>\<open>try\<close> statement. Text that decodes is stored in the
  memory with the time and returned, whatever its shape. The \<^verbatim>\<open>except\<close> clause names
  \<^verbatim>\<open>json.JSONDecodeError\<close> only: for that exception it logs the text and returns the
  fallback. Any other exception of \<^verbatim>\<open>json.loads\<close> leaves \<^verbatim>\<open>think\<close>.
\<close>

fun is_json_decode_error :: "exn \<Rightarrow> bool" where
  "is_json_decode_error (JSONDecodeError msg) = True"
| "is_json_decode_error e = False"

definition think_decode :: "'w env \<Rightarrow> string \<Rightarrow> (pyval, 'w) eff" where
  "think_decode env response s =
     (case json_loads env response of
        Inr decision \<Rightarrow>
          (Inr decision,
           s\<lparr>memory := memory s @
                [PDict [(''timestamp'', PStr (now_isoformat env (world s))),
                        (''decision'', decision)]]\<rparr>)
      | Inl e \<Rightarrow>
          (if is_json_decode_error e then
             bind_eff (emit (LogError (''Invalid JSON response from AI: '' @ response)))
               (\<lambda>_. return_eff fallback_decision) s
           else raise_eff e s))"

definition think :: "'w env \<Rightarrow> (pyval, 'w) eff" where
  "think env = bind_eff (think_request env) (think_decode env)"

section \<open>The background loop\<close>

text \<open>The body of the \<^verbatim>\<open>try\<close> statement inside \<^verbatim>\<open>while True\<close>.\<close>

definition ai_loop_body :: "'w env \<Rightarrow> (unit, 'w) eff" where
  "ai_loop_body env =
     bind_eff (think env)
       (\<lambda>decision.
          bind_eff (emit (LogInfo (''AI Decision: '' @ json_dumps env (Some 2) decision)))
            (\<lambda>_. bind_eff (lift_eff (subscript decision ''action''))
              (\<lambda>a. bind_eff
                 (if a \<noteq> PStr ''none'' then
                    bind_eff (lift_eff (subscript decision ''action''))
                      (\<lambda>action. bind_eff (lift_eff (subscript decision ''parameters''))
                        (\<lambda>parameters. bind_eff (execute_action env action parameters)
                          (\<lambda>result. emit (LogInfo (''Action Result: '' @
                                        json_dumps env (Some 2) result)))))
                  else return_eff ())
                 (\<lambda>_. emit (Sleep 60)))))"

text \<open>The \<^verbatim>\<open>except Exception\<close> clause.\<close>

definition ai_loop_handler :: "'w env \<Rightarrow> exn \<Rightarrow> (unit, 'w) eff" where
  "ai_loop_handler env e =
     bind_eff (emit (LogError (''Error in AI loop: '' @ exception_str env e)))
       (\<lambda>_. emit (Sleep 60))"

definition ai_loop_iteration :: "'w env \<Rightarrow> (unit, 'w) eff" where
  "ai_loop_iteration env = try_except (ai_loop_body env) (ai_loop_handler env)"

text \<open>
  \<^verbatim>\<open>while True\<close> has no exit of its own: the coroutine ends only if an exception leaves
  an iteration. Run for a given number of iterations, the loop is either still \<open>Running\<close>,
  about to start the next one, or it has \<open>Died\<close> with the exception that escaped.
\<close>

datatype 'w loop_outcome = Running "'w state" | Died exn "'w state"

fun ai_loop :: "'w env \<Rightarrow> nat \<Rightarrow> 'w state \<Rightarrow> 'w loop_outcome" where
  "ai_loop env 0 s = Running s"
| "ai_loop env (Suc n) s =
     (case ai_loop_iteration env s of
        (Inl e, s') \<Rightarrow> Died e s'
      | (Inr _, s') \<Rightarrow> ai_loop env n s')"

section \<open>The HTTP endpoints\<close>

text \<open>
  \<^verbatim>\<open>POST /interact\<close>. The request's message is validated by the framework and not used.
  An exception that leaves the function is the framework's to report.
\<close>

definition interact_with_ai :: "'w env \<Rightarrow> string \<Rightarrow> (pyval, 'w) eff" where
  "interact_with_ai env message =
     bind_eff (think env)
       (\<lambda>decision. bind_eff (lift_eff (subscript decision ''action''))
         (\<lambda>action. bind_eff (lift_eff (subscript decision ''parameters''))
           (\<lambda>parameters. bind_eff (execute_action env action parameters)
             (\<lambda>result. bind_eff (lift_eff (subscript decision ''thought_process''))
               (\<lambda>thought. bind_eff (lift_eff (subscript decision ''action''))
                 (\<lambda>act. bind_eff (lift_eff (subscript decision ''explanation''))
                   (\<lambda>explanation. return_eff (PDict
                      [(''ai_thought_process'', thought),
                       (''ai_action'', act),
                       (''ai_explanation'', explanation),
                       (''action_result'', result)]))))))))"

text \<open>\<^verbatim>\<open>GET /system_state\<close>, \<^verbatim>\<open>GET /ai_goals\<close>, \<^verbatim>\<open>GET /ai_memory\<close>.\<close>

definition get_system_state_endpoint :: "'w env \<Rightarrow> (pyval, 'w) eff" where
  "get_system_state_endpoint env = get_system_state env"

definition get_ai_goals :: "(pyval, 'w) eff" where
  "get_ai_goals s = (Inr (PDict [(''goals'', PList (goals s))]), s)"

definition get_ai_memory :: "(pyval, 'w) eff" where
  "get_ai_memory s = (Inr (PDict [(''memory'', PList (memory s))]), s)"

section \<open>A small concrete world\<close>

text \<open>
  For running the definitions on examples: a Docker daemon that is up or down and holds a
  list of containers, a language model that answers from a prepared list of replies and
  fails when the list is used up, and a clock that stands still. \<open>sim_loads\<close> is
  \<^verbatim>\<open>json.loads\<close> on the texts the examples use: four JSON objects, and a thousand opening
  brackets, on which the decoder runs out of stack and raises \<^verbatim>\<open>RecursionError\<close>. Other
  text counts as not being JSON. \<open>sim_dumps\<close>, \<open>sim_str\<close> and \<open>sim_exception_str\<close> return placeholders, since no example
  depends on the wording of a log line.
\<close>

record sim =
  sim_up :: bool
  sim_containers :: "container list"
  sim_replies :: "string list"
  sim_clock :: string

definition sim_guard :: "sim \<Rightarrow> 'a \<Rightarrow> (exn + 'a) \<times> sim" where
  "sim_guard w a =
     (if sim_up w then (Inr a, w)
      else (Inl (Raised ''DockerException'' ''daemon unreachable''), w))"

definition sim_get :: "pyval \<Rightarrow> sim \<Rightarrow> (exn + handle) \<times> sim" where
  "sim_get name w =
     (if \<not> sim_up w then (Inl (Raised ''DockerException'' ''daemon unreachable''), w)
      else case name of
        PStr n \<Rightarrow> (if n \<in> set (map cname (sim_containers w)) then (Inr n, w)
                   else (Inl (Raised ''NotFound'' n), w))
      | _ \<Rightarrow> (Inl (Raised ''NotFound'' []), w))"

definition sim_run :: "pyval \<Rightarrow> pyval \<Rightarrow> kwargs \<Rightarrow> sim \<Rightarrow> (exn + container) \<times> sim" where
  "sim_run img name kw w =
     (if \<not> sim_up w then (Inl (Raised ''DockerException'' ''daemon unreachable''), w)
      else case (img, name) of
        (PStr i, PStr n) \<Rightarrow>
          (let c = \<lparr>cid = ''0123456789abcdef'', cname = n, cstatus = ''running'',
                    cimage_tags = Inr [i]\<rparr>
           in (Inr c, w\<lparr>sim_containers := sim_containers w @ [c]\<rparr>))
      | _ \<Rightarrow> (Inl (Raised ''APIError'' ''bad request''), w))"

definition sim_remove :: "handle \<Rightarrow> sim \<Rightarrow> (exn + unit) \<times> sim" where
  "sim_remove h w =
     (Inr (), w\<lparr>sim_containers := filter (\<lambda>c. cname c \<noteq> h) (sim_containers w)\<rparr>)"

definition sim_ainvoke :: "string \<Rightarrow> sim \<Rightarrow> (exn + string) \<times> sim" where
  "sim_ainvoke text w =
     (case sim_replies w of
        [] \<Rightarrow> (Inl (Raised ''ConnectionError'' ''model unreachable''), w)
      | r # rs \<Rightarrow> (Inr r, w\<lparr>sim_replies := rs\<rparr>))"

definition delete_db_text :: string where
  \<open>delete_db_text =
     ''{"thought_process": "db has exited", "action": "delete_container", '' @
     ''"parameters": {"name": "db"}, "explanation": "Removing the stopped container"}''\<close>

definition delete_db_decision :: pyval where
  "delete_db_decision =
     PDict [(''thought_process'', PStr ''db has exited''),
            (''action'', PStr ''delete_container''),
            (''parameters'', PDict [(''name'', PStr ''db'')]),
            (''explanation'', PStr ''Removing the stopped container'')]"

definition delete_unnamed_text :: string where
  \<open>delete_unnamed_text =
     ''{"thought_process": "cleaning up", "action": "delete_container", '' @
     ''"parameters": {}, "explanation": "Removing a container"}''\<close>

definition delete_unnamed_decision :: pyval where
  "delete_unnamed_decision =
     PDict [(''thought_process'', PStr ''cleaning up''),
            (''action'', PStr ''delete_container''),
            (''parameters'', PDict []),
            (''explanation'', PStr ''Removing a container'')]"

definition wait_text :: string where
  \<open>wait_text =
     ''{"thought_process": "all is well", "action": "none", '' @
     ''"parameters": {}, "explanation": "Nothing to do"}''\<close>

definition wait_decision :: pyval where
  "wait_decision =
     PDict [(''thought_process'', PStr ''all is well''),
            (''action'', PStr ''none''),
            (''parameters'', PDict []),
            (''explanation'', PStr ''Nothing to do'')]"

definition bare_none_text :: string where
  \<open>bare_none_text = ''{"action": "none"}''\<close>

definition bare_none_decision :: pyval where
  "bare_none_decision = PDict [(''action'', PStr ''none'')]"

definition deep_text :: string where
  "deep_text = replicate 1000 (CHR ''['')"

definition sim_loads :: "string \<Rightarrow> exn + pyval" where
  "sim_loads text =
     (if text = deep_text
        then Inl (Raised ''RecursionError''
                    ''maximum recursion depth exceeded while decoding a JSON array from a unicode string'')
      else if text = delete_db_text then Inr delete_db_decision
      else if text = delete_unnamed_text then Inr delete_unnamed_decision
      else if text = wait_text then Inr wait_decision
      else if text = bare_none_text then Inr bare_none_decision
      else Inl (JSONDecodeError ''Expecting value: line 1 column 1 (char 0)''))"

definition sim_env :: "sim env" where
  "sim_env =
     \<lparr>docker_containers_list = (\<lambda>w. sim_guard w (sim_containers w)),
      docker_images_list = (\<lambda>w. sim_guard w []),
      docker_networks_list = (\<lambda>w. sim_guard w [''bridge'']),
      docker_volumes_list = (\<lambda>w. sim_guard w []),
      docker_containers_run = sim_run,
      docker_containers_get = sim_get,
      docker_remove = sim_remove,
      docker_update = (\<lambda>h kw w. sim_guard w ()),
      docker_logs = (\<lambda>h lines w. sim_guard w []),
      docker_exec_run = (\<lambda>h command w. sim_guard w (0, [])),
      llm_ainvoke = sim_ainvoke,
      json_loads = sim_loads,
      json_dumps = (\<lambda>indent v. ''<json>''),
      builtin_str = (\<lambda>v. ''<str>''),
      exception_str = (\<lambda>e. ''<exception>''),
      bytes_decode = (\<lambda>raw. Inr raw),
      now_isoformat = sim_clock\<rparr>"

definition web_db :: "container list" where
  "web_db =
     [\<lparr>cid = ''abc123'', cname = ''web'', cstatus = ''running'', cimage_tags = Inr [''nginx:latest'']\<rparr>,
      \<lparr>cid = ''def456'', cname = ''db'', cstatus = ''exited'', cimage_tags = Inr [''postgres:16'']\<rparr>]"

definition sim_world :: "string list \<Rightarrow> sim" where
  "sim_world replies =
     \<lparr>sim_up = True, sim_containers = web_db, sim_replies = replies,
      sim_clock = ''2024-01-01T00:00:00''\<rparr>"

definition sim_down :: sim where
  "sim_down =
     \<lparr>sim_up = False, sim_containers = [], sim_replies = [],
      sim_clock = ''2024-01-01T00:00:00''\<rparr>"

definition initial :: "'w \<Rightarrow> 'w state" where
  "initial w = \<lparr>memory = [], goals = [], world = w, trace = []\<rparr>"

section \<open>What an operation leaves alone\<close>

text \<open>
  Most operations touch only the world and the trace. An observation of the state is
  \<open>inert\<close> if it does not depend on the world, on the goals, or on trace records other
  than sleeps; an operation \<open>preserves\<close> an observation if it has the same value before
  and after.
\<close>

fun is_sleep :: "event \<Rightarrow> bool" where
  "is_sleep (Sleep n) = True"
| "is_sleep ev = False"

definition sleeps :: "'w state \<Rightarrow> nat" where
  "sleeps s = length (filter is_sleep (trace s))"

definition preserves :: "('w state \<Rightarrow> 'b) \<Rightarrow> ('a, 'w) eff \<Rightarrow> bool" where
  "preserves g m = (\<forall>s. g (snd (m s)) = g s)"

definition inert :: "('w state \<Rightarrow> 'b) \<Rightarrow> bool" where
  "inert g =
     ((\<forall>s w. g (s\<lparr>world := w\<rparr>) = g s) \<and>
      (\<forall>s gs. g (s\<lparr>goals := gs\<rparr>) = g s) \<and>
      (\<forall>s ev. \<not> is_sleep ev \<longrightarrow> g (s\<lparr>trace := trace s @ [ev]\<rparr>) = g s))"

text \<open>
  Two properties of an operation as a whole: it only ever extends the memory, and, if it
  ends normally, it has slept exactly once, as its last step.
\<close>

definition extends_memory :: "('a, 'w) eff \<Rightarrow> bool" where
  "extends_memory m = (\<forall>s. prefix (memory s) (memory (snd (m s))))"

definition sleeps_last :: "('a, 'w) eff \<Rightarrow> bool" where
  "sleeps_last m =
     (\<forall>s. case m s of
        (Inl e, s') \<Rightarrow> sleeps s' = sleeps s
      | (Inr a, s') \<Rightarrow> sleeps s' = Suc (sleeps s) \<and> last (trace s') = Sleep 60)"

section \<open>Laws of sequencing\<close>

lemma bind_return: "bind_eff (return_eff a) f s = f a s"
  by (simp add: bind_eff_def return_eff_def)

lemma bind_raise: "bind_eff (raise_eff e) f s = (Inl e, s)"
  by (simp add: bind_eff_def raise_eff_def)

lemma bind_lift_Inr: "bind_eff (lift_eff (Inr a)) f s = f a s"
  by (simp add: bind_eff_def lift_eff_def)

lemma bind_lift_Inl: "bind_eff (lift_eff (Inl e)) f s = (Inl e, s)"
  by (simp add: bind_eff_def lift_eff_def)

lemma bind_emit: "bind_eff (emit ev) f s = f () (s\<lparr>trace := trace s @ [ev]\<rparr>)"
  by (simp add: bind_eff_def emit_def)

lemma bind_Inr: "m s = (Inr a, s') \<Longrightarrow> bind_eff m f s = f a s'"
  by (simp add: bind_eff_def)

lemma bind_Inl: "m s = (Inl e, s') \<Longrightarrow> bind_eff m f s = (Inl e, s')"
  by (simp add: bind_eff_def)

lemma inert_memory: "inert memory"
  by (simp add: inert_def)

lemma inert_sleeps: "inert sleeps"
  by (simp add: inert_def sleeps_def)

lemma preservesD: "preserves g m \<Longrightarrow> m s = (r, s') \<Longrightarrow> g s' = g s"
  by (metis preserves_def snd_conv)

lemma preserves_return: "preserves g (return_eff a)"
  by (simp add: preserves_def return_eff_def)

lemma preserves_raise: "preserves g (raise_eff e)"
  by (simp add: preserves_def raise_eff_def)

lemma preserves_lift: "preserves g (lift_eff r)"
  by (simp add: preserves_def lift_eff_def)

lemma preserves_emit: "inert g \<Longrightarrow> \<not> is_sleep ev \<Longrightarrow> preserves g (emit ev)"
  by (simp add: preserves_def emit_def inert_def)

lemma preserves_external: "inert g \<Longrightarrow> preserves g (external l f)"
proof -
  assume g: "inert g"
  have "g (s\<lparr>world := w, trace := trace s @ [Call l]\<rparr>) = g s" for s :: "'a state" and w
  proof -
    have "g ((s\<lparr>world := w\<rparr>)\<lparr>trace := trace (s\<lparr>world := w\<rparr>) @ [Call l]\<rparr>) = g (s\<lparr>world := w\<rparr>)"
      using g unfolding inert_def by (metis is_sleep.simps(4))
    also have "\<dots> = g s" using g by (simp add: inert_def)
    finally show ?thesis by simp
  qed
  then show ?thesis
    by (simp add: preserves_def external_def split: prod.split)
qed

lemma preserves_bind:
  assumes "preserves g m" and "\<And>a. preserves g (f a)"
  shows "preserves g (bind_eff m f)"
  unfolding preserves_def
proof
  fix s
  obtain r s' where ms: "m s = (r, s')" by (cases "m s")
  with assms(1) have m': "g s' = g s" by (rule preservesD)
  show "g (snd (bind_eff m f s)) = g s"
  proof (cases r)
    case (Inl e)
    with ms m' show ?thesis by (simp add: bind_eff_def)
  next
    case (Inr a)
    from assms(2) have "g (snd (f a s')) = g s'"
      by (simp add: preserves_def)
    with ms m' Inr show ?thesis by (simp add: bind_eff_def)
  qed
qed

lemma preserves_if: "preserves g a \<Longrightarrow> preserves g b \<Longrightarrow> preserves g (if c then a else b)"
  by simp

lemmas preserves_intros =
  preserves_bind preserves_return preserves_raise preserves_lift preserves_external preserves_if

lemma preserves_create: "inert g \<Longrightarrow> preserves g (create_container env n i kw)"
  unfolding create_container_def by (intro preserves_intros)

lemma preserves_delete: "inert g \<Longrightarrow> preserves g (delete_container env n)"
  unfolding delete_container_def by (intro preserves_intros)

lemma preserves_modify: "inert g \<Longrightarrow> preserves g (modify_container env n kw)"
  unfolding modify_container_def by (intro preserves_intros)

lemma preserves_set_goal: "inert g \<Longrightarrow> preserves g (set_goal env goal)"
  by (simp add: preserves_def set_goal_def inert_def)

lemma preserves_list: "inert g \<Longrightarrow> preserves g (list_containers env)"
  unfolding list_containers_def by (intro preserves_intros)

lemma preserves_logs: "inert g \<Longrightarrow> preserves g (get_container_logs env n l)"
  unfolding get_container_logs_def by (intro preserves_intros)

lemma preserves_exec: "inert g \<Longrightarrow> preserves g (execute_in_container env n c)"
  unfolding execute_in_container_def
  by (intro preserves_intros) (auto intro: preserves_intros)

lemmas preserves_handlers =
  preserves_create preserves_delete preserves_modify preserves_set_goal
  preserves_list preserves_logs preserves_exec

lemma bind_lift_Inr_fun: "bind_eff (lift_eff (Inr a)) f = f a"
  by (rule ext) (simp add: bind_eff_def lift_eff_def)

lemma bind_return_fun: "bind_eff (return_eff a) f = f a"
  by (rule ext) (simp add: bind_eff_def return_eff_def)

lemma preserves_call_await:
  assumes "inert g"
  shows "preserves g (bind_eff (call_handler env h kvs) await)"
proof (cases "bind_arguments (handler_signature h) kvs")
  case (Inl e)
  then show ?thesis
    by (simp add: call_handler_def preserves_def bind_eff_def lift_eff_def)
next
  case (Inr b)
  have goal: "preserves g (bind_eff (bind_eff (set_goal env v) (\<lambda>r. return_eff (Plain r))) await)" for v
    using assms
    by (simp add: preserves_def bind_eff_def set_goal_def return_eff_def await_def raise_eff_def
          inert_def)
  show ?thesis
  proof (cases h)
    case Set_goal
    with Inr goal show ?thesis
      by (simp add: call_handler_def bind_lift_Inr_fun)
  qed (use Inr assms in \<open>simp_all add: call_handler_def bind_lift_Inr_fun bind_return_fun
         await_def preserves_handlers\<close>)
qed

lemma preserves_execute_action: "inert g \<Longrightarrow> preserves g (execute_action env a p)"
  unfolding execute_action_def
  by (intro preserves_bind preserves_lift)
     (simp add: preserves_return preserves_bind preserves_lift preserves_call_await
        split: option.split)

lemma preserves_get_system_state: "inert g \<Longrightarrow> preserves g (get_system_state env)"
  unfolding get_system_state_def
  by (intro preserves_bind preserves_external preserves_lift preserves_return)

lemma preserves_think_request:
  assumes "inert g"
  shows "preserves g (think_request env)"
  unfolding think_request_def
proof (rule preserves_bind)
  show "preserves g (get_system_state env)"
    using assms by (rule preserves_get_system_state)
next
  fix system_state
  have "preserves g (bind_eff (lift_eff r) (\<lambda>t. external l (f t)))" for r l
    and f :: "string \<Rightarrow> 'a \<Rightarrow> (exn + string) \<times> 'a"
    using assms by (intro preserves_bind preserves_lift preserves_external)
  then show "preserves g (\<lambda>s. bind_eff (lift_eff (goals_str (goals s)))
      (\<lambda>goals_text. external ''llm.ainvoke''
         (llm_ainvoke env (prompt (json_dumps env (Some 2) system_state)
            (memory_str env (memory s)) goals_text))) s)"
    by (simp add: preserves_def)
qed

section \<open>Running the concrete world\<close>

lemma sim_think_request:
  "think_request sim_env (initial (sim_world (r # rs))) =
     (Inr r, \<lparr>memory = [], goals = [], world = sim_world rs,
              trace = [Call ''containers.list'', Call ''images.list'', Call ''networks.list'',
                       Call ''volumes.list'', Call ''llm.ainvoke'']\<rparr>)"
  by (simp add: think_request_def get_system_state_def bind_eff_def external_def lift_eff_def
        return_eff_def sim_env_def sim_guard_def sim_world_def web_db_def initial_def
        goals_str_def sim_ainvoke_def)

lemma not_deep_text: "length text \<noteq> 1000 \<Longrightarrow> text \<noteq> deep_text"
  by (auto simp: deep_text_def)

lemma sim_loads_deep:
  "sim_loads deep_text =
     Inl (Raised ''RecursionError''
            ''maximum recursion depth exceeded while decoding a JSON array from a unicode string'')"
  by (simp add: sim_loads_def)

lemma sim_loads_not_json:
  "sim_loads ''not json'' = Inl (JSONDecodeError ''Expecting value: line 1 column 1 (char 0)'')"
proof -
  have "''not json'' \<noteq> deep_text"
    by (rule not_deep_text) simp
  then show ?thesis
    by (simp add: sim_loads_def delete_db_text_def delete_unnamed_text_def wait_text_def
          bare_none_text_def)
qed

lemma sim_loads_wait: "sim_loads wait_text = Inr wait_decision"
proof -
  have "wait_text \<noteq> deep_text"
    by (rule not_deep_text) (simp add: wait_text_def)
  then show ?thesis
    by (simp add: sim_loads_def) (simp add: delete_db_text_def delete_unnamed_text_def wait_text_def)
qed

lemma sim_loads_delete_db: "sim_loads delete_db_text = Inr delete_db_decision"
proof -
  have "delete_db_text \<noteq> deep_text"
    by (rule not_deep_text) (simp add: delete_db_text_def)
  then show ?thesis
    by (simp add: sim_loads_def)
qed

lemma sim_loads_delete_unnamed: "sim_loads delete_unnamed_text = Inr delete_unnamed_decision"
proof -
  have "delete_unnamed_text \<noteq> deep_text"
    by (rule not_deep_text) (simp add: delete_unnamed_text_def)
  then show ?thesis
    by (simp add: sim_loads_def) (simp add: delete_db_text_def delete_unnamed_text_def)
qed

lemma sim_loads_bare_none: "sim_loads bare_none_text = Inr bare_none_decision"
proof -
  have "bare_none_text \<noteq> deep_text"
    by (rule not_deep_text) (simp add: bare_none_text_def)
  then show ?thesis
    by (simp add: sim_loads_def)
       (simp add: delete_db_text_def delete_unnamed_text_def wait_text_def bare_none_text_def)
qed

section \<open>The dispatcher\<close>

text \<open>
  Claim C5. For every action string that is not a key of the dispatch table, and for every
  parameter value, \<^verbatim>\<open>execute_action\<close> returns exactly the dictionary
  \<^verbatim>\<open>{"error": "Unknown action: <action>"}\<close>. It raises nothing and leaves the whole state
  (memory, goals, world, trace) as it was.
\<close>

theorem unknown_action_is_data:
  "a \<notin> set (map fst action_dispatch) \<Longrightarrow>
   execute_action env (PStr a) parameters s =
     (Inr (PDict [(''error'', PStr (''Unknown action: '' @ a))]), s)"
proof -
  assume "a \<notin> set (map fst action_dispatch)"
  then have "map_of action_dispatch a = None"
    by (simp add: map_of_eq_None_iff)
  then show ?thesis
    by (simp add: execute_action_def bind_lift_Inr return_eff_def format_value_def)
qed

theorem unknown_action_is_data_witness:
  "''restart_container'' \<notin> set (map fst action_dispatch) \<and>
   execute_action sim_env (PStr ''restart_container'') (PDict [(''name'', PStr ''web'')])
       (initial (sim_world [])) =
     (Inr (PDict [(''error'', PStr ''Unknown action: restart_container'')]),
      initial (sim_world []))"
proof -
  have h: "''restart_container'' \<notin> set (map fst action_dispatch)"
    by (simp add: action_dispatch_def)
  show ?thesis
    using h unknown_action_is_data [OF h, of sim_env "PDict [(''name'', PStr ''web'')]"
        "initial (sim_world [])"]
    by simp
qed

text \<open>
  Claim C7, evaluated on the code. Called on its own, \<^verbatim>\<open>set_goal\<close> appends \<open>g\<close> to the goal
  list, after the goals already there, and returns the message. Dispatching it with
  \<^verbatim>\<open>{"goal": g}\<close> through \<^verbatim>\<open>execute_action\<close> makes the same single change to the goal list.
  But \<^verbatim>\<open>set_goal\<close> is a plain \<^verbatim>\<open>def\<close>, so the call has already returned the message
  dictionary when \<^verbatim>\<open>execute_action\<close> applies \<^verbatim>\<open>await\<close> to it, and a dictionary cannot be
  awaited: the dispatch ends in a \<^verbatim>\<open>TypeError\<close> and returns no result.
\<close>

theorem set_goal_dispatch_raises:
  "set_goal env (PStr g) s =
     (Inr (PDict [(''message'', PStr (''New goal set: '' @ g))]),
      s\<lparr>goals := goals s @ [PStr g]\<rparr>) \<and>
   execute_action env (PStr ''set_goal'') (PDict [(''goal'', PStr g)]) s =
     (Inl (TypeError NotAwaitable), s\<lparr>goals := goals s @ [PStr g]\<rparr>)"
  by (simp add: execute_action_def action_dispatch_def bind_lift_Inr call_handler_def
        bind_arguments_def bind_eff_def lift_eff_def set_goal_def return_eff_def await_def
        raise_eff_def format_value_def)

section \<open>The memory window\<close>

text \<open>
  Claim C6. The part of the memory that \<^verbatim>\<open>think\<close> puts into the prompt has at most 10
  entries and never more than the memory holds: it has exactly the smaller of the two
  numbers, so a shorter history is passed whole, without padding. It is a suffix of the
  memory, so its entries are the latest ones in the order they were appended. The prompt
  shows its serialisation, or a fixed sentence when the memory is empty.
\<close>

theorem recent_memory_window:
  "length (memory_context mem) = min 10 (length mem) \<and>
   length (memory_context mem) \<le> 10 \<and>
   length (memory_context mem) \<le> length mem \<and>
   suffix (memory_context mem) mem \<and>
   memory_str env mem =
     (if mem = [] then ''No previous actions''
      else json_dumps env None (PList (memory_context mem)))"
proof -
  have ctx: "memory_context mem = drop (length mem - 10) mem"
    by (simp add: memory_context_def slice_from_def Let_def nat_diff_distrib' max_def)
  have "suffix (drop (length mem - 10) mem) mem"
    by (rule suffix_drop)
  with ctx show ?thesis
    by (auto simp: memory_str_def)
qed

section \<open>Facts about \<^verbatim>\<open>think\<close> and the memory\<close>

lemma think_malformed:
  "think_request env s = (Inr response, s1) \<Longrightarrow>
   json_loads env response = Inl (JSONDecodeError msg) \<Longrightarrow>
   think env s =
     (Inr fallback_decision,
      s1\<lparr>trace := trace s1 @ [LogError (''Invalid JSON response from AI: '' @ response)]\<rparr>)"
  by (simp add: think_def bind_Inr think_decode_def bind_emit return_eff_def)

lemma think_decoded:
  "think_request env s = (Inr response, s1) \<Longrightarrow> json_loads env response = Inr d \<Longrightarrow>
   think env s =
     (Inr d, s1\<lparr>memory := memory s1 @
        [PDict [(''timestamp'', PStr (now_isoformat env (world s1))), (''decision'', d)]]\<rparr>)"
  by (simp add: think_def bind_Inr think_decode_def)

lemma think_failed:
  "think_request env s = (Inl e, s1) \<Longrightarrow> think env s = (Inl e, s1)"
  by (simp add: think_def bind_Inl)

lemma think_decoder_raises:
  "think_request env s = (Inr response, s1) \<Longrightarrow> json_loads env response = Inl e \<Longrightarrow>
   \<not> is_json_decode_error e \<Longrightarrow> think env s = (Inl e, s1)"
  by (simp add: think_def bind_Inr think_decode_def raise_eff_def)

lemma json_decode_errorE:
  "is_json_decode_error e \<Longrightarrow> (\<And>msg. e = JSONDecodeError msg \<Longrightarrow> P) \<Longrightarrow> P"
  by (cases e) simp_all

lemma extendsD: "extends_memory m \<Longrightarrow> m s = (r, s') \<Longrightarrow> prefix (memory s) (memory s')"
  by (metis extends_memory_def snd_conv)

lemma preserves_extends: "preserves memory m \<Longrightarrow> extends_memory m"
  by (simp add: preserves_def extends_memory_def)

lemma extends_bind:
  assumes "extends_memory m" and "\<And>a. extends_memory (f a)"
  shows "extends_memory (bind_eff m f)"
  unfolding extends_memory_def
proof
  fix s
  obtain r s' where ms: "m s = (r, s')" by (cases "m s")
  with assms(1) have m': "prefix (memory s) (memory s')" by (rule extendsD)
  show "prefix (memory s) (memory (snd (bind_eff m f s)))"
  proof (cases r)
    case (Inl e)
    with ms m' show ?thesis by (simp add: bind_eff_def)
  next
    case (Inr a)
    from assms(2) have "prefix (memory s') (memory (snd (f a s')))"
      by (simp add: extends_memory_def)
    with m' have "prefix (memory s) (memory (snd (f a s')))"
      by (rule prefix_order.trans)
    with ms Inr show ?thesis by (simp add: bind_eff_def)
  qed
qed

lemma extends_try_except:
  assumes "extends_memory m" and "\<And>e. extends_memory (h e)"
  shows "extends_memory (try_except m h)"
  unfolding extends_memory_def
proof
  fix s
  obtain r s' where ms: "m s = (r, s')" by (cases "m s")
  with assms(1) have m': "prefix (memory s) (memory s')" by (rule extendsD)
  show "prefix (memory s) (memory (snd (try_except m h s)))"
  proof (cases r)
    case (Inr a)
    with ms m' show ?thesis by (simp add: try_except_def)
  next
    case (Inl e)
    from assms(2) have "prefix (memory s') (memory (snd (h e s')))"
      by (simp add: extends_memory_def)
    with m' have "prefix (memory s) (memory (snd (h e s')))"
      by (rule prefix_order.trans)
    with ms Inl show ?thesis by (simp add: try_except_def)
  qed
qed

lemma extends_think_decode: "extends_memory (think_decode env response)"
  by (simp add: extends_memory_def think_decode_def bind_emit return_eff_def raise_eff_def
        split: sum.split)

lemma extends_think: "extends_memory (think env)"
  unfolding think_def
  by (intro extends_bind extends_think_decode preserves_extends preserves_think_request
        inert_memory)

lemma think_memory_length:
  "length (memory (snd (think env s))) \<le> Suc (length (memory s))"
proof -
  obtain r s1 where req: "think_request env s = (r, s1)" by (cases "think_request env s")
  have m1: "memory s1 = memory s"
    using preserves_think_request [OF inert_memory] req by (rule preservesD)
  show ?thesis
  proof (cases r)
    case (Inl e)
    with req m1 show ?thesis by (simp add: think_failed)
  next
    case (Inr response)
    show ?thesis
    proof (cases "json_loads env response")
      case (Inr d)
      with req \<open>r = Inr response\<close> m1 show ?thesis by (simp add: think_decoded)
    next
      case (Inl e)
      show ?thesis
      proof (cases "is_json_decode_error e")
        case True
        then obtain msg where "e = JSONDecodeError msg" by (rule json_decode_errorE)
        with req \<open>r = Inr response\<close> Inl m1 show ?thesis by (simp add: think_malformed)
      next
        case False
        with req \<open>r = Inr response\<close> Inl m1 show ?thesis by (simp add: think_decoder_raises)
      qed
    qed
  qed
qed

lemma keeps_memory_emit: "preserves memory (emit ev)"
  by (simp add: preserves_def emit_def)

lemma extends_ai_loop_body: "extends_memory (ai_loop_body env)"
  unfolding ai_loop_body_def
  by (intro extends_bind extends_think preserves_extends)
     (intro preserves_bind preserves_lift preserves_if preserves_return keeps_memory_emit
        preserves_execute_action inert_memory)+

lemma extends_ai_loop_iteration: "extends_memory (ai_loop_iteration env)"
  unfolding ai_loop_iteration_def ai_loop_handler_def
  by (intro extends_try_except extends_ai_loop_body preserves_extends preserves_bind
        keeps_memory_emit)

lemma extends_interact: "extends_memory (interact_with_ai env message)"
  unfolding interact_with_ai_def
  by (intro extends_bind extends_think preserves_extends)
     (intro preserves_bind preserves_lift preserves_return preserves_execute_action
        inert_memory)+

text \<open>
  Claim C9. The memory is append-only. \<^verbatim>\<open>think\<close> leaves the memory it found as a prefix
  of the memory it leaves, and adds at most one entry. \<^verbatim>\<open>execute_action\<close>, each of the seven
  handlers and the three read-only endpoints leave the memory exactly as it was. The
  \<^verbatim>\<open>/interact\<close> endpoint and an iteration of the background loop, which combine them, keep
  the old memory as a prefix. So no entry is ever removed, reordered or changed.
\<close>

theorem memory_is_append_only:
  "prefix (memory s) (memory (snd (think env s))) \<and>
   length (memory (snd (think env s))) \<le> Suc (length (memory s)) \<and>
   memory (snd (execute_action env action parameters s)) = memory s \<and>
   memory (snd (create_container env name img kw s)) = memory s \<and>
   memory (snd (delete_container env name s)) = memory s \<and>
   memory (snd (modify_container env name kw s)) = memory s \<and>
   memory (snd (set_goal env goal s)) = memory s \<and>
   memory (snd (list_containers env s)) = memory s \<and>
   memory (snd (get_container_logs env name lines s)) = memory s \<and>
   memory (snd (execute_in_container env name command s)) = memory s \<and>
   memory (snd (get_system_state_endpoint env s)) = memory s \<and>
   memory (snd (get_ai_goals s)) = memory s \<and>
   memory (snd (get_ai_memory s)) = memory s \<and>
   prefix (memory s) (memory (snd (interact_with_ai env message s))) \<and>
   prefix (memory s) (memory (snd (ai_loop_iteration env s)))"
proof -
  note keep = preserves_handlers [OF inert_memory, unfolded preserves_def, rule_format]
  have think: "prefix (memory s) (memory (snd (think env s)))"
    using extends_think [of env] by (simp add: extends_memory_def)
  have dispatch: "memory (snd (execute_action env action parameters s)) = memory s"
    using preserves_execute_action [OF inert_memory, of env action parameters]
    by (simp add: preserves_def)
  have snapshot: "memory (snd (get_system_state_endpoint env s)) = memory s"
    using preserves_get_system_state [OF inert_memory, of env]
    by (simp add: preserves_def get_system_state_endpoint_def)
  have reads: "memory (snd (get_ai_goals s)) = memory s" "memory (snd (get_ai_memory s)) = memory s"
    by (simp_all add: get_ai_goals_def get_ai_memory_def)
  have interact: "prefix (memory s) (memory (snd (interact_with_ai env message s)))"
    using extends_interact [of env message] by (simp add: extends_memory_def)
  have loop: "prefix (memory s) (memory (snd (ai_loop_iteration env s)))"
    using extends_ai_loop_iteration [of env] by (simp add: extends_memory_def)
  from think think_memory_length dispatch snapshot reads interact loop show ?thesis
    by (simp only: keep simp_thms)
qed

section \<open>The background loop, one iteration at a time\<close>

lemma ai_loop_body_waits:
  "think env s = (Inr d, s1) \<Longrightarrow> subscript d ''action'' = Inr (PStr ''none'') \<Longrightarrow>
   ai_loop_body env s =
     (Inr (), s1\<lparr>trace := trace s1 @
        [LogInfo (''AI Decision: '' @ json_dumps env (Some 2) d), Sleep 60]\<rparr>)"
  by (simp add: ai_loop_body_def bind_Inr bind_emit bind_lift_Inr bind_return emit_def)

lemma ai_loop_body_dispatches:
  assumes "think env s = (Inr d, s1)"
    and "subscript d ''action'' = Inr a" and "a \<noteq> PStr ''none''"
    and "subscript d ''parameters'' = Inr p"
    and "execute_action env a p
           (s1\<lparr>trace := trace s1 @ [LogInfo (''AI Decision: '' @ json_dumps env (Some 2) d)]\<rparr>) =
         (r, s2)"
  shows "ai_loop_body env s =
     (case r of
        Inl e \<Rightarrow> (Inl e, s2)
      | Inr result \<Rightarrow>
          (Inr (), s2\<lparr>trace := trace s2 @
             [LogInfo (''Action Result: '' @ json_dumps env (Some 2) result), Sleep 60]\<rparr>))"
  using assms
  by (cases r)
     (simp_all add: ai_loop_body_def bind_eff_def lift_eff_def emit_def)

lemma ai_loop_iteration_catches:
  "ai_loop_body env s = (Inl e, s1) \<Longrightarrow>
   ai_loop_iteration env s =
     (Inr (), s1\<lparr>trace := trace s1 @
        [LogError (''Error in AI loop: '' @ exception_str env e), Sleep 60]\<rparr>)"
  by (simp add: ai_loop_iteration_def try_except_def ai_loop_handler_def bind_emit emit_def)

lemma ai_loop_iteration_passes:
  "ai_loop_body env s = (Inr u, s1) \<Longrightarrow> ai_loop_iteration env s = (Inr u, s1)"
  by (simp add: ai_loop_iteration_def try_except_def)

lemma sleeps_lastD:
  "sleeps_last m \<Longrightarrow> m s = (Inr a, s') \<Longrightarrow>
   sleeps s' = Suc (sleeps s) \<and> last (trace s') = Sleep 60"
  unfolding sleeps_last_def by (drule spec [of _ s]) simp

lemma sleeps_last_emit: "sleeps_last (emit (Sleep 60))"
  by (simp add: sleeps_last_def emit_def sleeps_def)

lemma sleeps_last_bind:
  assumes "preserves sleeps m" and "\<And>a. sleeps_last (f a)"
  shows "sleeps_last (bind_eff m f)"
  unfolding sleeps_last_def
proof
  fix s
  obtain r s' where ms: "m s = (r, s')" by (cases "m s")
  with assms(1) have m': "sleeps s' = sleeps s" by (rule preservesD)
  show "case bind_eff m f s of
          (Inl e, s') \<Rightarrow> sleeps s' = sleeps s
        | (Inr a, s') \<Rightarrow> sleeps s' = Suc (sleeps s) \<and> last (trace s') = Sleep 60"
  proof (cases r)
    case (Inl e)
    with ms m' show ?thesis by (simp add: bind_eff_def)
  next
    case (Inr a)
    from assms(2) [of a] have "case f a s' of
          (Inl e, t) \<Rightarrow> sleeps t = sleeps s'
        | (Inr b, t) \<Rightarrow> sleeps t = Suc (sleeps s') \<and> last (trace t) = Sleep 60"
      unfolding sleeps_last_def by (rule spec)
    with ms m' Inr show ?thesis
      by (cases "f a s'") (simp add: bind_eff_def split: sum.splits)
  qed
qed

lemma preserves_sleeps_think_decode: "preserves sleeps (think_decode env response)"
  by (simp add: preserves_def think_decode_def bind_emit return_eff_def raise_eff_def sleeps_def
        split: sum.split)

lemma preserves_sleeps_think: "preserves sleeps (think env)"
  unfolding think_def
  by (intro preserves_bind preserves_think_request inert_sleeps preserves_sleeps_think_decode)

lemma preserves_sleeps_log:
  "preserves sleeps (emit (LogInfo text))" "preserves sleeps (emit (LogError text))"
  by (simp_all add: preserves_def emit_def sleeps_def)

lemma sleeps_last_ai_loop_body: "sleeps_last (ai_loop_body env)"
  unfolding ai_loop_body_def
  by (intro sleeps_last_bind sleeps_last_emit preserves_sleeps_think preserves_sleeps_log
        preserves_lift preserves_if preserves_return)
     (intro preserves_bind preserves_lift preserves_execute_action inert_sleeps
        preserves_sleeps_log)

lemma ai_loop_iteration_sleeps:
  "\<exists>s'. ai_loop_iteration env s = (Inr (), s') \<and> sleeps s' = Suc (sleeps s) \<and>
        last (trace s') = Sleep 60"
proof -
  obtain r s1 where body: "ai_loop_body env s = (r, s1)" by (cases "ai_loop_body env s")
  show ?thesis
  proof (cases r)
    case (Inl e)
    from sleeps_last_ai_loop_body [of env] body Inl have "sleeps s1 = sleeps s"
      unfolding sleeps_last_def by (drule_tac spec [of _ s]) simp
    with body Inl show ?thesis
      by (simp add: ai_loop_iteration_catches sleeps_def)
  next
    case (Inr u)
    with body sleeps_lastD [OF sleeps_last_ai_loop_body, of env s u s1] show ?thesis
      by (simp add: ai_loop_iteration_passes)
  qed
qed

lemma ai_loop_keeps_running:
  "\<exists>s'. ai_loop env n s = Running s' \<and> sleeps s' = sleeps s + n"
proof (induction n arbitrary: s)
  case 0
  show ?case by simp
next
  case (Suc n)
  obtain s1 where step: "ai_loop_iteration env s = (Inr (), s1)" "sleeps s1 = Suc (sleeps s)"
    using ai_loop_iteration_sleeps [of env s] by blast
  from Suc.IH [of s1] obtain s' where "ai_loop env n s1 = Running s'" "sleeps s' = sleeps s1 + n"
    by blast
  with step show ?case by simp
qed

text \<open>
  Claim C1. Loop durability. Whatever exception the body of an iteration raises, and
  wherever in the body (the snapshot, the model, reading the decision, the dispatch), the
  iteration catches it, logs it and sleeps for 60; the iteration itself ends normally.
  Every iteration, failed or not, ends normally with exactly one sleep, which is the last
  thing it does. Hence after any number \<open>n\<close> of iterations, for any behaviour of the
  collaborators (in particular if all \<open>n\<close> fail), the loop is still running and has
  slept \<open>n\<close> times.
\<close>

theorem loop_durability:
  "(ai_loop_body env s = (Inl e, s1) \<longrightarrow>
      ai_loop_iteration env s =
        (Inr (), s1\<lparr>trace := trace s1 @
           [LogError (''Error in AI loop: '' @ exception_str env e), Sleep 60]\<rparr>)) \<and>
   (\<exists>s'. ai_loop_iteration env s = (Inr (), s') \<and> sleeps s' = Suc (sleeps s) \<and>
         last (trace s') = Sleep 60) \<and>
   (\<exists>s'. ai_loop env n s = Running s' \<and> sleeps s' = sleeps s + n)"
  using ai_loop_iteration_catches [of env s e s1] ai_loop_iteration_sleeps [of env s]
    ai_loop_keeps_running [of env n s]
  by blast

lemma sim_down_body:
  "ai_loop_body sim_env \<lparr>memory = [], goals = [], world = sim_down, trace = evs\<rparr> =
     (Inl (Raised ''DockerException'' ''daemon unreachable''),
      \<lparr>memory = [], goals = [], world = sim_down, trace = evs @ [Call ''containers.list'']\<rparr>)"
  by (simp add: ai_loop_body_def think_def think_request_def get_system_state_def bind_eff_def
        external_def sim_env_def sim_guard_def sim_down_def)

lemma sim_down_iteration:
  "ai_loop_iteration sim_env \<lparr>memory = [], goals = [], world = sim_down, trace = evs\<rparr> =
     (Inr (), \<lparr>memory = [], goals = [], world = sim_down,
        trace = evs @ [Call ''containers.list'', LogError ''Error in AI loop: <exception>'',
                       Sleep 60]\<rparr>)"
  by (simp add: ai_loop_iteration_catches [OF sim_down_body]) (simp add: sim_env_def)

theorem loop_durability_witness:
  "ai_loop_body sim_env (initial sim_down) =
     (Inl (Raised ''DockerException'' ''daemon unreachable''),
      \<lparr>memory = [], goals = [], world = sim_down, trace = [Call ''containers.list'']\<rparr>) \<and>
   ai_loop_iteration sim_env (initial sim_down) =
     (Inr (), \<lparr>memory = [], goals = [], world = sim_down,
        trace = [Call ''containers.list'', LogError ''Error in AI loop: <exception>'',
                 Sleep 60]\<rparr>) \<and>
   ai_loop sim_env 3 (initial sim_down) =
     Running \<lparr>memory = [], goals = [], world = sim_down,
        trace = [Call ''containers.list'', LogError ''Error in AI loop: <exception>'', Sleep 60,
                 Call ''containers.list'', LogError ''Error in AI loop: <exception>'', Sleep 60,
                 Call ''containers.list'', LogError ''Error in AI loop: <exception>'', Sleep 60]\<rparr>"
proof -
  have body: "ai_loop_body sim_env (initial sim_down) =
     (Inl (Raised ''DockerException'' ''daemon unreachable''),
      \<lparr>memory = [], goals = [], world = sim_down, trace = [Call ''containers.list'']\<rparr>)"
    using sim_down_body [of "[]"] by (simp add: initial_def)
  have three: "ai_loop sim_env 3 (initial sim_down) =
     Running \<lparr>memory = [], goals = [], world = sim_down,
        trace = [Call ''containers.list'', LogError ''Error in AI loop: <exception>'', Sleep 60,
                 Call ''containers.list'', LogError ''Error in AI loop: <exception>'', Sleep 60,
                 Call ''containers.list'', LogError ''Error in AI loop: <exception>'', Sleep 60]\<rparr>"
    by (simp add: numeral_3_eq_3 initial_def sim_down_iteration)
  from loop_durability [of sim_env "initial sim_down"
      "Raised ''DockerException'' ''daemon unreachable''"
      "\<lparr>memory = [], goals = [], world = sim_down, trace = [Call ''containers.list'']\<rparr>" 3]
    body
  have "ai_loop_iteration sim_env (initial sim_down) =
     (Inr (), \<lparr>memory = [], goals = [], world = sim_down,
        trace = [Call ''containers.list'', LogError ''Error in AI loop: <exception>'',
                 Sleep 60]\<rparr>)"
    by (simp add: sim_env_def)
  with body three show ?thesis by simp
qed

section \<open>More runs of the concrete world\<close>

lemma sim_env_loads: "json_loads sim_env = sim_loads"
  by (simp add: sim_env_def)

lemma sim_think_not_json:
  "think sim_env (initial (sim_world [''not json''])) =
     (Inr fallback_decision,
      \<lparr>memory = [], goals = [], world = sim_world [],
       trace = [Call ''containers.list'', Call ''images.list'', Call ''networks.list'',
                Call ''volumes.list'', Call ''llm.ainvoke'',
                LogError ''Invalid JSON response from AI: not json'']\<rparr>)"
  using think_malformed [OF sim_think_request [of "''not json''" "[]"]]
  by (simp add: sim_env_loads sim_loads_not_json)

lemma sim_think_wait:
  "think sim_env (initial (sim_world [wait_text])) =
     (Inr wait_decision,
      \<lparr>memory = [PDict [(''timestamp'', PStr ''2024-01-01T00:00:00''),
                        (''decision'', wait_decision)]],
       goals = [], world = sim_world [],
       trace = [Call ''containers.list'', Call ''images.list'', Call ''networks.list'',
                Call ''volumes.list'', Call ''llm.ainvoke'']\<rparr>)"
  using think_decoded [OF sim_think_request [of wait_text "[]"], of wait_decision]
  by (simp add: sim_env_loads sim_loads_wait) (simp add: sim_env_def sim_world_def)

lemma sim_think_delete_db:
  "think sim_env (initial (sim_world [delete_db_text])) =
     (Inr delete_db_decision,
      \<lparr>memory = [PDict [(''timestamp'', PStr ''2024-01-01T00:00:00''),
                        (''decision'', delete_db_decision)]],
       goals = [], world = sim_world [],
       trace = [Call ''containers.list'', Call ''images.list'', Call ''networks.list'',
                Call ''volumes.list'', Call ''llm.ainvoke'']\<rparr>)"
  using think_decoded [OF sim_think_request [of delete_db_text "[]"], of delete_db_decision]
  by (simp add: sim_env_loads sim_loads_delete_db) (simp add: sim_env_def sim_world_def)

lemma sim_think_delete_unnamed:
  "think sim_env (initial (sim_world [delete_unnamed_text])) =
     (Inr delete_unnamed_decision,
      \<lparr>memory = [PDict [(''timestamp'', PStr ''2024-01-01T00:00:00''),
                        (''decision'', delete_unnamed_decision)]],
       goals = [], world = sim_world [],
       trace = [Call ''containers.list'', Call ''images.list'', Call ''networks.list'',
                Call ''volumes.list'', Call ''llm.ainvoke'']\<rparr>)"
  using think_decoded [OF sim_think_request [of delete_unnamed_text "[]"], of delete_unnamed_decision]
  by (simp add: sim_env_loads sim_loads_delete_unnamed) (simp add: sim_env_def sim_world_def)

section \<open>The sentinel \<^verbatim>\<open>none\<close>\<close>

lemma sim_think_bare_none:
  "think sim_env (initial (sim_world [bare_none_text])) =
     (Inr bare_none_decision,
      \<lparr>memory = [PDict [(''timestamp'', PStr ''2024-01-01T00:00:00''),
                        (''decision'', bare_none_decision)]],
       goals = [], world = sim_world [],
       trace = [Call ''containers.list'', Call ''images.list'', Call ''networks.list'',
                Call ''volumes.list'', Call ''llm.ainvoke'']\<rparr>)"
  using think_decoded [OF sim_think_request [of bare_none_text "[]"], of bare_none_decision]
  by (simp add: sim_env_loads sim_loads_bare_none) (simp add: sim_env_def sim_world_def)

lemma none_not_in_table: "map_of action_dispatch ''none'' = None"
  by (simp add: action_dispatch_def)

lemma execute_action_unknown:
  "map_of action_dispatch a = None \<Longrightarrow>
   execute_action env (PStr a) parameters s =
     (Inr (PDict [(''error'', PStr (''Unknown action: '' @ a))]), s)"
  by (simp add: execute_action_def bind_lift_Inr return_eff_def format_value_def)

text \<open>
  Claim C8. The string \<^verbatim>\<open>none\<close> is not a key of the dispatch table. If it is dispatched all
  the same, \<^verbatim>\<open>execute_action\<close> calls no handler: it returns the unknown-action dictionary
  and leaves the world, the memory, the goals and the trace as they were. The background
  loop does not even get there: when the decision's action is \<^verbatim>\<open>none\<close>, all that follows
  \<^verbatim>\<open>think\<close> in the iteration is the log record of the decision and the sleep.
\<close>

theorem none_is_not_dispatched:
  "map_of action_dispatch ''none'' = None \<and>
   execute_action env (PStr ''none'') parameters s =
     (Inr (PDict [(''error'', PStr ''Unknown action: none'')]), s) \<and>
   (think env s = (Inr d, s1) \<and> subscript d ''action'' = Inr (PStr ''none'') \<longrightarrow>
      ai_loop_body env s =
        (Inr (), s1\<lparr>trace := trace s1 @
           [LogInfo (''AI Decision: '' @ json_dumps env (Some 2) d), Sleep 60]\<rparr>))"
  using none_not_in_table execute_action_unknown [OF none_not_in_table, of env parameters s]
    ai_loop_body_waits [of env s d s1]
  by simp

theorem none_is_not_dispatched_witness:
  "think sim_env (initial (sim_world [wait_text])) =
     (Inr wait_decision,
      \<lparr>memory = [PDict [(''timestamp'', PStr ''2024-01-01T00:00:00''),
                        (''decision'', wait_decision)]],
       goals = [], world = sim_world [],
       trace = [Call ''containers.list'', Call ''images.list'', Call ''networks.list'',
                Call ''volumes.list'', Call ''llm.ainvoke'']\<rparr>) \<and>
   subscript wait_decision ''action'' = Inr (PStr ''none'') \<and>
   ai_loop_body sim_env (initial (sim_world [wait_text])) =
     (Inr (),
      \<lparr>memory = [PDict [(''timestamp'', PStr ''2024-01-01T00:00:00''),
                        (''decision'', wait_decision)]],
       goals = [], world = sim_world [],
       trace = [Call ''containers.list'', Call ''images.list'', Call ''networks.list'',
                Call ''volumes.list'', Call ''llm.ainvoke'',
                LogInfo ''AI Decision: <json>'', Sleep 60]\<rparr>)"
proof -
  have act: "subscript wait_decision ''action'' = Inr (PStr ''none'')"
    by (simp add: wait_decision_def)
  from none_is_not_dispatched [of sim_env "PDict []" "initial (sim_world [wait_text])"
      wait_decision _] sim_think_wait act
  show ?thesis
    by (simp add: sim_env_def)
qed

section \<open>The \<^verbatim>\<open>/interact\<close> endpoint\<close>

lemma interact_none:
  assumes "think env s = (Inr d, s1)"
    and "subscript d ''action'' = Inr (PStr ''none'')"
    and "subscript d ''parameters'' = Inr p"
    and "subscript d ''thought_process'' = Inr t"
    and "subscript d ''explanation'' = Inr x"
  shows "interact_with_ai env message s =
     (Inr (PDict [(''ai_thought_process'', t),
                  (''ai_action'', PStr ''none''),
                  (''ai_explanation'', x),
                  (''action_result'', PDict [(''error'', PStr ''Unknown action: none'')])]),
      s1)"
proof -
  have "execute_action env (PStr ''none'') p s1 =
      (Inr (PDict [(''error'', PStr ''Unknown action: none'')]), s1)"
    using execute_action_unknown [OF none_not_in_table] by simp
  with assms show ?thesis
    by (simp add: interact_with_ai_def bind_eff_def lift_eff_def return_eff_def)
qed

lemma fallback_fields:
  "subscript fallback_decision ''action'' = Inr (PStr ''none'')"
  "subscript fallback_decision ''parameters'' = Inr (PDict [])"
  "subscript fallback_decision ''thought_process'' = Inr (PStr ''Error in decision making'')"
  "subscript fallback_decision ''explanation'' =
     Inr (PStr ''There was an error in processing the AI's response.'')"
  by (simp_all add: fallback_decision_def)

text \<open>
  Claim C10, as the code has it. \<^verbatim>\<open>/interact\<close> dispatches whatever \<^verbatim>\<open>think\<close> returned,
  without looking for the sentinel. Whenever \<^verbatim>\<open>think\<close> returns a decision whose action is
  \<^verbatim>\<open>none\<close> and which also carries the three other keys the endpoint reads
  (\<^verbatim>\<open>parameters\<close>, \<^verbatim>\<open>thought_process\<close>, \<^verbatim>\<open>explanation\<close>), the response repeats those fields
  and its \<^verbatim>\<open>action_result\<close> is \<^verbatim>\<open>{"error": "Unknown action: none"}\<close>; the dispatch changes
  nothing. In particular this is the response after a model reply that is not JSON,
  where the decision is the fallback.
\<close>

theorem interact_dispatches_none:
  "(think env s = (Inr d, s1) \<and>
    subscript d ''action'' = Inr (PStr ''none'') \<and>
    subscript d ''parameters'' = Inr p \<and>
    subscript d ''thought_process'' = Inr t \<and>
    subscript d ''explanation'' = Inr x \<longrightarrow>
    interact_with_ai env message s =
      (Inr (PDict [(''ai_thought_process'', t),
                   (''ai_action'', PStr ''none''),
                   (''ai_explanation'', x),
                   (''action_result'', PDict [(''error'', PStr ''Unknown action: none'')])]),
       s1)) \<and>
   (think_request env s = (Inr response, s2) \<and>
    json_loads env response = Inl (JSONDecodeError msg) \<longrightarrow>
    interact_with_ai env message s =
      (Inr (PDict [(''ai_thought_process'', PStr ''Error in decision making''),
                   (''ai_action'', PStr ''none''),
                   (''ai_explanation'',
                      PStr ''There was an error in processing the AI's response.''),
                   (''action_result'', PDict [(''error'', PStr ''Unknown action: none'')])]),
       s2\<lparr>trace := trace s2 @
            [LogError (''Invalid JSON response from AI: '' @ response)]\<rparr>))"
proof (intro conjI impI)
  assume "think env s = (Inr d, s1) \<and>
    subscript d ''action'' = Inr (PStr ''none'') \<and>
    subscript d ''parameters'' = Inr p \<and>
    subscript d ''thought_process'' = Inr t \<and>
    subscript d ''explanation'' = Inr x"
  then show "interact_with_ai env message s =
      (Inr (PDict [(''ai_thought_process'', t),
                   (''ai_action'', PStr ''none''),
                   (''ai_explanation'', x),
                   (''action_result'', PDict [(''error'', PStr ''Unknown action: none'')])]),
       s1)"
    by (elim conjE) (rule interact_none; assumption)
next
  assume "think_request env s = (Inr response, s2) \<and>
    json_loads env response = Inl (JSONDecodeError msg)"
  then have "think env s = (Inr fallback_decision,
      s2\<lparr>trace := trace s2 @ [LogError (''Invalid JSON response from AI: '' @ response)]\<rparr>)"
    by (simp add: think_malformed)
  then show "interact_with_ai env message s =
      (Inr (PDict [(''ai_thought_process'', PStr ''Error in decision making''),
                   (''ai_action'', PStr ''none''),
                   (''ai_explanation'',
                      PStr ''There was an error in processing the AI's response.''),
                   (''action_result'', PDict [(''error'', PStr ''Unknown action: none'')])]),
       s2\<lparr>trace := trace s2 @
            [LogError (''Invalid JSON response from AI: '' @ response)]\<rparr>)"
    by (rule interact_none) (rule fallback_fields)+
qed

theorem interact_dispatches_none_witness:
  "(think sim_env (initial (sim_world [wait_text])) =
      (Inr wait_decision,
       \<lparr>memory = [PDict [(''timestamp'', PStr ''2024-01-01T00:00:00''),
                         (''decision'', wait_decision)]],
        goals = [], world = sim_world [],
        trace = [Call ''containers.list'', Call ''images.list'', Call ''networks.list'',
                 Call ''volumes.list'', Call ''llm.ainvoke'']\<rparr>) \<and>
    subscript wait_decision ''action'' = Inr (PStr ''none'') \<and>
    subscript wait_decision ''parameters'' = Inr (PDict []) \<and>
    subscript wait_decision ''thought_process'' = Inr (PStr ''all is well'') \<and>
    subscript wait_decision ''explanation'' = Inr (PStr ''Nothing to do'') \<and>
    interact_with_ai sim_env ''hello'' (initial (sim_world [wait_text])) =
      (Inr (PDict [(''ai_thought_process'', PStr ''all is well''),
                   (''ai_action'', PStr ''none''),
                   (''ai_explanation'', PStr ''Nothing to do''),
                   (''action_result'', PDict [(''error'', PStr ''Unknown action: none'')])]),
       \<lparr>memory = [PDict [(''timestamp'', PStr ''2024-01-01T00:00:00''),
                         (''decision'', wait_decision)]],
        goals = [], world = sim_world [],
        trace = [Call ''containers.list'', Call ''images.list'', Call ''networks.list'',
                 Call ''volumes.list'', Call ''llm.ainvoke'']\<rparr>)) \<and>
   (think_request sim_env (initial (sim_world [''not json''])) =
      (Inr ''not json'',
       \<lparr>memory = [], goals = [], world = sim_world [],
        trace = [Call ''containers.list'', Call ''images.list'', Call ''networks.list'',
                 Call ''volumes.list'', Call ''llm.ainvoke'']\<rparr>) \<and>
    json_loads sim_env ''not json'' =
      Inl (JSONDecodeError ''Expecting value: line 1 column 1 (char 0)'') \<and>
    interact_with_ai sim_env ''hello'' (initial (sim_world [''not json''])) =
      (Inr (PDict [(''ai_thought_process'', PStr ''Error in decision making''),
                   (''ai_action'', PStr ''none''),
                   (''ai_explanation'',
                      PStr ''There was an error in processing the AI's response.''),
                   (''action_result'', PDict [(''error'', PStr ''Unknown action: none'')])]),
       \<lparr>memory = [], goals = [], world = sim_world [],
        trace = [Call ''containers.list'', Call ''images.list'', Call ''networks.list'',
                 Call ''volumes.list'', Call ''llm.ainvoke'',
                 LogError ''Invalid JSON response from AI: not json'']\<rparr>))"
proof -
  have fields:
    "subscript wait_decision ''action'' = Inr (PStr ''none'')"
    "subscript wait_decision ''parameters'' = Inr (PDict [])"
    "subscript wait_decision ''thought_process'' = Inr (PStr ''all is well'')"
    "subscript wait_decision ''explanation'' = Inr (PStr ''Nothing to do'')"
    by (simp_all add: wait_decision_def)
  have undecodable: "json_loads sim_env ''not json'' =
      Inl (JSONDecodeError ''Expecting value: line 1 column 1 (char 0)'')"
    by (simp add: sim_env_loads sim_loads_not_json)
  from interact_dispatches_none [of sim_env "initial (sim_world [wait_text])" wait_decision
      _ "PDict []" "PStr ''all is well''" "PStr ''Nothing to do''" "''hello''"]
    sim_think_wait fields
  have first: "interact_with_ai sim_env ''hello'' (initial (sim_world [wait_text])) =
      (Inr (PDict [(''ai_thought_process'', PStr ''all is well''),
                   (''ai_action'', PStr ''none''),
                   (''ai_explanation'', PStr ''Nothing to do''),
                   (''action_result'', PDict [(''error'', PStr ''Unknown action: none'')])]),
       \<lparr>memory = [PDict [(''timestamp'', PStr ''2024-01-01T00:00:00''),
                         (''decision'', wait_decision)]],
        goals = [], world = sim_world [],
        trace = [Call ''containers.list'', Call ''images.list'', Call ''networks.list'',
                 Call ''volumes.list'', Call ''llm.ainvoke'']\<rparr>)"
    by simp
  from interact_dispatches_none [of sim_env "initial (sim_world [''not json''])" _ _ _ _ _
      "''hello''" "''not json''" _ "''Expecting value: line 1 column 1 (char 0)''"]
    sim_think_request [of "''not json''" "[]"] undecodable
  have second: "interact_with_ai sim_env ''hello'' (initial (sim_world [''not json''])) =
      (Inr (PDict [(''ai_thought_process'', PStr ''Error in decision making''),
                   (''ai_action'', PStr ''none''),
                   (''ai_explanation'',
                      PStr ''There was an error in processing the AI's response.''),
                   (''action_result'', PDict [(''error'', PStr ''Unknown action: none'')])]),
       \<lparr>memory = [], goals = [], world = sim_world [],
        trace = [Call ''containers.list'', Call ''images.list'', Call ''networks.list'',
                 Call ''volumes.list'', Call ''llm.ainvoke'',
                 LogError ''Invalid JSON response from AI: not json'']\<rparr>)"
    by simp
  from first second fields undecodable sim_think_wait sim_think_request [of "''not json''" "[]"]
  show ?thesis by simp
qed

text \<open>
  Claim C10 as stated speaks of every decision with action \<^verbatim>\<open>none\<close>. The reply
  \<^verbatim>\<open>{"action": "none"}\<close> decodes, so \<^verbatim>\<open>think\<close> stores and returns it. The endpoint then
  reads \<^verbatim>\<open>decision['parameters']\<close> before it dispatches, and raises \<^verbatim>\<open>KeyError\<close>: there is
  no response and no \<^verbatim>\<open>action_result\<close>.
\<close>

theorem interact_needs_the_other_fields:
  "think sim_env (initial (sim_world [bare_none_text])) =
     (Inr bare_none_decision,
      \<lparr>memory = [PDict [(''timestamp'', PStr ''2024-01-01T00:00:00''),
                        (''decision'', bare_none_decision)]],
       goals = [], world = sim_world [],
       trace = [Call ''containers.list'', Call ''images.list'', Call ''networks.list'',
                Call ''volumes.list'', Call ''llm.ainvoke'']\<rparr>) \<and>
   subscript bare_none_decision ''action'' = Inr (PStr ''none'') \<and>
   interact_with_ai sim_env ''hello'' (initial (sim_world [bare_none_text])) =
     (Inl (KeyError ''parameters''),
      \<lparr>memory = [PDict [(''timestamp'', PStr ''2024-01-01T00:00:00''),
                        (''decision'', bare_none_decision)]],
       goals = [], world = sim_world [],
       trace = [Call ''containers.list'', Call ''images.list'', Call ''networks.list'',
                Call ''volumes.list'', Call ''llm.ainvoke'']\<rparr>)"
proof -
  have "interact_with_ai sim_env ''hello'' (initial (sim_world [bare_none_text])) =
     (Inl (KeyError ''parameters''),
      \<lparr>memory = [PDict [(''timestamp'', PStr ''2024-01-01T00:00:00''),
                        (''decision'', bare_none_decision)]],
       goals = [], world = sim_world [],
       trace = [Call ''containers.list'', Call ''images.list'', Call ''networks.list'',
                Call ''volumes.list'', Call ''llm.ainvoke'']\<rparr>)"
    by (simp add: interact_with_ai_def bind_Inr [of "think sim_env", OF sim_think_bare_none]
          bind_lift_Inr bind_lift_Inl bare_none_decision_def)
  then show ?thesis
    by (simp add: sim_think_bare_none) (simp add: bare_none_decision_def)
qed

section \<open>A reply that does not decode\<close>

text \<open>
  Claim C2, as the code has it. When \<^verbatim>\<open>json.loads\<close> rejects the model's reply with
  \<^verbatim>\<open>JSONDecodeError\<close>, \<^verbatim>\<open>think\<close> logs the raw text and returns the fallback decision, with
  the four fields shown. No exception leaves \<^verbatim>\<open>think\<close>. The memory stays as it was: the
  append sits in the \<^verbatim>\<open>try\<close> block after the decoding, and the \<^verbatim>\<open>except\<close> clause does
  not store the fallback. In the background loop the rest of the iteration is the log
  record of the decision and the sleep, so nothing is dispatched and no call reaches the
  Docker client after the model has answered.
\<close>

theorem malformed_response_falls_back:
  assumes "think_request env s = (Inr response, s1)"
    and "json_loads env response = Inl (JSONDecodeError msg)"
  shows "think env s =
           (Inr fallback_decision,
            s1\<lparr>trace := trace s1 @
                 [LogError (''Invalid JSON response from AI: '' @ response)]\<rparr>) \<and>
         fallback_decision =
           PDict [(''thought_process'', PStr ''Error in decision making''),
                  (''action'', PStr ''none''),
                  (''parameters'', PDict []),
                  (''explanation'',
                     PStr ''There was an error in processing the AI's response.'')] \<and>
         memory (snd (think env s)) = memory s \<and>
         ai_loop_body env s =
           (Inr (),
            s1\<lparr>trace := trace s1 @
                 [LogError (''Invalid JSON response from AI: '' @ response),
                  LogInfo (''AI Decision: '' @ json_dumps env (Some 2) fallback_decision),
                  Sleep 60]\<rparr>) \<and>
         memory (snd (ai_loop_body env s)) = memory s"
proof -
  have t: "think env s =
      (Inr fallback_decision,
       s1\<lparr>trace := trace s1 @ [LogError (''Invalid JSON response from AI: '' @ response)]\<rparr>)"
    using assms by (rule think_malformed)
  have m: "memory s1 = memory s"
    using preserves_think_request [OF inert_memory] assms(1) by (rule preservesD)
  have b: "ai_loop_body env s =
      (Inr (),
       s1\<lparr>trace := trace s1 @
            [LogError (''Invalid JSON response from AI: '' @ response),
             LogInfo (''AI Decision: '' @ json_dumps env (Some 2) fallback_decision),
             Sleep 60]\<rparr>)"
    using ai_loop_body_waits [OF t fallback_fields(1)] by simp
  from t m b show ?thesis
    by (simp add: fallback_decision_def)
qed

theorem malformed_response_falls_back_witness:
  "think_request sim_env (initial (sim_world [''not json''])) =
     (Inr ''not json'',
      \<lparr>memory = [], goals = [], world = sim_world [],
       trace = [Call ''containers.list'', Call ''images.list'', Call ''networks.list'',
                Call ''volumes.list'', Call ''llm.ainvoke'']\<rparr>) \<and>
   json_loads sim_env ''not json'' =
     Inl (JSONDecodeError ''Expecting value: line 1 column 1 (char 0)'') \<and>
   think sim_env (initial (sim_world [''not json''])) =
     (Inr fallback_decision,
      \<lparr>memory = [], goals = [], world = sim_world [],
       trace = [Call ''containers.list'', Call ''images.list'', Call ''networks.list'',
                Call ''volumes.list'', Call ''llm.ainvoke'',
                LogError ''Invalid JSON response from AI: not json'']\<rparr>) \<and>
   ai_loop_body sim_env (initial (sim_world [''not json''])) =
     (Inr (),
      \<lparr>memory = [], goals = [], world = sim_world [],
       trace = [Call ''containers.list'', Call ''images.list'', Call ''networks.list'',
                Call ''volumes.list'', Call ''llm.ainvoke'',
                LogError ''Invalid JSON response from AI: not json'',
                LogInfo ''AI Decision: <json>'', Sleep 60]\<rparr>)"
proof -
  have undecodable: "json_loads sim_env ''not json'' =
      Inl (JSONDecodeError ''Expecting value: line 1 column 1 (char 0)'')"
    by (simp add: sim_env_loads sim_loads_not_json)
  from malformed_response_falls_back [OF sim_think_request [of "''not json''" "[]"] undecodable]
    undecodable sim_think_request [of "''not json''" "[]"]
  show ?thesis
    by (simp add: sim_env_def)
qed

text \<open>
  Claim C2 as stated asks that the memory grow by one entry holding the fallback, and that
  no exception leave \<^verbatim>\<open>think\<close>, for every reply that does not decode. On the reply
  \<^verbatim>\<open>not json\<close> the fallback is returned and the memory has the length it had. On a reply
  of a thousand opening brackets \<^verbatim>\<open>json.loads\<close> raises \<^verbatim>\<open>RecursionError\<close>, which the
  \<^verbatim>\<open>except\<close> clause does not name: it leaves \<^verbatim>\<open>think\<close>.
\<close>

theorem malformed_response_is_not_recorded:
  "json_loads sim_env ''not json'' =
     Inl (JSONDecodeError ''Expecting value: line 1 column 1 (char 0)'') \<and>
   fst (think sim_env (initial (sim_world [''not json'']))) = Inr fallback_decision \<and>
   memory (snd (think sim_env (initial (sim_world [''not json''])))) =
     memory (initial (sim_world [''not json''])) \<and>
   length (memory (snd (think sim_env (initial (sim_world [''not json''])))))
     \<noteq> length (memory (initial (sim_world [''not json'']))) + 1 \<and>
   think sim_env (initial (sim_world [deep_text])) =
     (Inl (Raised ''RecursionError''
             ''maximum recursion depth exceeded while decoding a JSON array from a unicode string''),
      \<lparr>memory = [], goals = [], world = sim_world [],
       trace = [Call ''containers.list'', Call ''images.list'', Call ''networks.list'',
                Call ''volumes.list'', Call ''llm.ainvoke'']\<rparr>)"
proof -
  have deep: "think sim_env (initial (sim_world [deep_text])) =
     (Inl (Raised ''RecursionError''
             ''maximum recursion depth exceeded while decoding a JSON array from a unicode string''),
      \<lparr>memory = [], goals = [], world = sim_world [],
       trace = [Call ''containers.list'', Call ''images.list'', Call ''networks.list'',
                Call ''volumes.list'', Call ''llm.ainvoke'']\<rparr>)"
    by (rule think_decoder_raises [OF sim_think_request [of deep_text "[]"]])
       (simp_all add: sim_env_loads sim_loads_deep)
  have "json_loads sim_env ''not json'' =
     Inl (JSONDecodeError ''Expecting value: line 1 column 1 (char 0)'') \<and>
   fst (think sim_env (initial (sim_world [''not json'']))) = Inr fallback_decision \<and>
   memory (snd (think sim_env (initial (sim_world [''not json''])))) =
     memory (initial (sim_world [''not json''])) \<and>
   length (memory (snd (think sim_env (initial (sim_world [''not json''])))))
     \<noteq> length (memory (initial (sim_world [''not json'']))) + 1"
    by (simp add: sim_think_not_json sim_env_loads sim_loads_not_json) (simp add: initial_def)
  with deep show ?thesis by (simp only: simp_thms)
qed

section \<open>Where the result of an action goes\<close>

lemma think_stores_dispatched:
  assumes "think env s = (Inr d, s1)" and "subscript d ''action'' = Inr a"
    and "a \<noteq> PStr ''none''"
  shows "memory s1 = memory s @
      [PDict [(''timestamp'', PStr (now_isoformat env (world s1))), (''decision'', d)]]"
proof -
  obtain r s0 where req: "think_request env s = (r, s0)" by (cases "think_request env s")
  have m0: "memory s0 = memory s"
    using preserves_think_request [OF inert_memory] req by (rule preservesD)
  show ?thesis
  proof (cases r)
    case (Inl e)
    with req assms(1) show ?thesis by (simp add: think_failed)
  next
    case (Inr response)
    show ?thesis
    proof (cases "json_loads env response")
      case (Inl e)
      show ?thesis
      proof (cases "is_json_decode_error e")
        case True
        then obtain msg where "e = JSONDecodeError msg" by (rule json_decode_errorE)
        with req Inr Inl assms(1) have "d = fallback_decision"
          by (simp add: think_malformed)
        with assms(2,3) show ?thesis by (simp add: fallback_fields)
      next
        case False
        with req Inr Inl assms(1) show ?thesis by (simp add: think_decoder_raises)
      qed
    next
      case (Inr d')
      with req \<open>r = Inr response\<close> assms(1) m0 show ?thesis
        by (auto simp: think_decoded)
    qed
  qed
qed

lemma execute_delete_container:
  "execute_action env (PStr ''delete_container'') (PDict [(''name'', v)]) s =
     delete_container env v s"
  by (simp add: execute_action_def action_dispatch_def bind_lift_Inr call_handler_def
        bind_arguments_def bind_lift_Inr_fun bind_return_fun await_def)

lemma delete_container_result:
  "delete_container env (PStr n) s = (Inr result, s2) \<Longrightarrow>
   result = PDict [(''message'', PStr (''Container deleted: '' @ n))]"
  by (auto simp: delete_container_def bind_eff_def return_eff_def format_value_def
        split: prod.splits sum.splits)

text \<open>
  Claim C3, as the code has it. In an iteration of the background loop whose decision
  names an action other than \<^verbatim>\<open>none\<close>, and whose dispatch returns a result, the result is
  sent to the logger (\<^verbatim>\<open>Action Result: ...\<close>) and the iteration sleeps. The memory is not
  touched by the dispatch: its entry for this iteration is the one \<^verbatim>\<open>think\<close> appended,
  holding the time and the decision and nothing else. For \<^verbatim>\<open>delete_container\<close> on a name
  \<open>n\<close> the result is the message \<^verbatim>\<open>Container deleted: n\<close>.
\<close>

theorem action_result_is_logged:
  assumes "think env s = (Inr d, s1)"
    and "subscript d ''action'' = Inr a" and "a \<noteq> PStr ''none''"
    and "subscript d ''parameters'' = Inr p"
    and "execute_action env a p
           (s1\<lparr>trace := trace s1 @ [LogInfo (''AI Decision: '' @ json_dumps env (Some 2) d)]\<rparr>) =
         (Inr result, s2)"
  shows "ai_loop_body env s =
           (Inr (), s2\<lparr>trace := trace s2 @
              [LogInfo (''Action Result: '' @ json_dumps env (Some 2) result), Sleep 60]\<rparr>) \<and>
         memory (snd (ai_loop_body env s)) =
           memory s @ [PDict [(''timestamp'', PStr (now_isoformat env (world s1))),
                              (''decision'', d)]] \<and>
         (a = PStr ''delete_container'' \<and> p = PDict [(''name'', PStr n)] \<longrightarrow>
            result = PDict [(''message'', PStr (''Container deleted: '' @ n))])"
proof -
  have body: "ai_loop_body env s =
      (Inr (), s2\<lparr>trace := trace s2 @
         [LogInfo (''Action Result: '' @ json_dumps env (Some 2) result), Sleep 60]\<rparr>)"
    using ai_loop_body_dispatches [OF assms] by simp
  have "memory s2 =
      memory (s1\<lparr>trace := trace s1 @ [LogInfo (''AI Decision: '' @ json_dumps env (Some 2) d)]\<rparr>)"
    using preserves_execute_action [OF inert_memory] assms(5) by (rule preservesD)
  then have mem: "memory s2 = memory s @
      [PDict [(''timestamp'', PStr (now_isoformat env (world s1))), (''decision'', d)]]"
    using think_stores_dispatched [OF assms(1-3)] by simp
  have "result = PDict [(''message'', PStr (''Container deleted: '' @ n))]"
    if "a = PStr ''delete_container''" and "p = PDict [(''name'', PStr n)]"
    using assms(5) that delete_container_result [of env n _ result s2]
    by (simp add: execute_delete_container)
  with body mem show ?thesis by simp
qed

lemma sim_execute_delete_db:
  "execute_action sim_env (PStr ''delete_container'') (PDict [(''name'', PStr ''db'')])
     \<lparr>memory = mem, goals = gs, world = sim_world rs, trace = evs\<rparr> =
   (Inr (PDict [(''message'', PStr ''Container deleted: db'')]),
    \<lparr>memory = mem, goals = gs,
     world = \<lparr>sim_up = True,
              sim_containers = [\<lparr>cid = ''abc123'', cname = ''web'', cstatus = ''running'',
                                 cimage_tags = Inr [''nginx:latest'']\<rparr>],
              sim_replies = rs, sim_clock = ''2024-01-01T00:00:00''\<rparr>,
     trace = evs @ [Call ''containers.get'', Call ''container.remove'']\<rparr>)"
  by (simp add: execute_delete_container delete_container_def bind_eff_def external_def
        return_eff_def format_value_def sim_env_def sim_get_def sim_remove_def sim_world_def
        web_db_def)

lemma delete_db_fields:
  "subscript delete_db_decision ''action'' = Inr (PStr ''delete_container'')"
  "subscript delete_db_decision ''parameters'' = Inr (PDict [(''name'', PStr ''db'')])"
  by (simp_all add: delete_db_decision_def)

lemma sim_body_delete_db:
  "ai_loop_body sim_env (initial (sim_world [delete_db_text])) =
     (Inr (),
      \<lparr>memory = [PDict [(''timestamp'', PStr ''2024-01-01T00:00:00''),
                        (''decision'', delete_db_decision)]],
       goals = [],
       world = \<lparr>sim_up = True,
                sim_containers = [\<lparr>cid = ''abc123'', cname = ''web'', cstatus = ''running'',
                                   cimage_tags = Inr [''nginx:latest'']\<rparr>],
                sim_replies = [], sim_clock = ''2024-01-01T00:00:00''\<rparr>,
       trace = [Call ''containers.list'', Call ''images.list'', Call ''networks.list'',
                Call ''volumes.list'', Call ''llm.ainvoke'',
                LogInfo ''AI Decision: <json>'',
                Call ''containers.get'', Call ''container.remove'',
                LogInfo ''Action Result: <json>'', Sleep 60]\<rparr>)"
proof -
  have "ai_loop_body sim_env (initial (sim_world [delete_db_text])) =
     (case Inr (PDict [(''message'', PStr ''Container deleted: db'')]) of
        Inl e \<Rightarrow> (Inl e, undefined)
      | Inr result \<Rightarrow>
          (Inr (),
           \<lparr>memory = [PDict [(''timestamp'', PStr ''2024-01-01T00:00:00''),
                             (''decision'', delete_db_decision)]],
            goals = [],
            world = \<lparr>sim_up = True,
                     sim_containers = [\<lparr>cid = ''abc123'', cname = ''web'',
                                        cstatus = ''running'',
                                        cimage_tags = Inr [''nginx:latest'']\<rparr>],
                     sim_replies = [], sim_clock = ''2024-01-01T00:00:00''\<rparr>,
            trace = [Call ''containers.list'', Call ''images.list'', Call ''networks.list'',
                     Call ''volumes.list'', Call ''llm.ainvoke'',
                     LogInfo ''AI Decision: <json>'',
                     Call ''containers.get'', Call ''container.remove'']\<rparr>
            \<lparr>trace := [Call ''containers.list'', Call ''images.list'', Call ''networks.list'',
                     Call ''volumes.list'', Call ''llm.ainvoke'',
                     LogInfo ''AI Decision: <json>'',
                     Call ''containers.get'', Call ''container.remove''] @
                [LogInfo (''Action Result: '' @ json_dumps sim_env (Some 2) result),
                 Sleep 60]\<rparr>))"
    using ai_loop_body_dispatches [OF sim_think_delete_db delete_db_fields(1) _ delete_db_fields(2),
        of "Inr (PDict [(''message'', PStr ''Container deleted: db'')])"]
      sim_execute_delete_db
    by (simp add: sim_env_def)
  then show ?thesis by (simp add: sim_env_def)
qed

text \<open>
  Claim C3 as stated asks for the result inside the memory entry. With containers
  \<^verbatim>\<open>web\<close> and \<^verbatim>\<open>db\<close> and a decision to delete \<^verbatim>\<open>db\<close>, the iteration removes \<^verbatim>\<open>db\<close>
  and logs the result, and the one memory entry has no \<^verbatim>\<open>result\<close> key.
\<close>

theorem action_result_is_not_in_memory:
  "ai_loop_iteration sim_env (initial (sim_world [delete_db_text])) =
     (Inr (),
      \<lparr>memory = [PDict [(''timestamp'', PStr ''2024-01-01T00:00:00''),
                        (''decision'', delete_db_decision)]],
       goals = [],
       world = \<lparr>sim_up = True,
                sim_containers = [\<lparr>cid = ''abc123'', cname = ''web'', cstatus = ''running'',
                                   cimage_tags = Inr [''nginx:latest'']\<rparr>],
                sim_replies = [], sim_clock = ''2024-01-01T00:00:00''\<rparr>,
       trace = [Call ''containers.list'', Call ''images.list'', Call ''networks.list'',
                Call ''volumes.list'', Call ''llm.ainvoke'',
                LogInfo ''AI Decision: <json>'',
                Call ''containers.get'', Call ''container.remove'',
                LogInfo ''Action Result: <json>'', Sleep 60]\<rparr>) \<and>
   subscript (last (memory (snd (ai_loop_iteration sim_env
       (initial (sim_world [delete_db_text])))))) ''result'' = Inl (KeyError ''result'')"
  by (simp add: ai_loop_iteration_passes [OF sim_body_delete_db])

theorem action_result_is_logged_witness:
  "think sim_env (initial (sim_world [delete_db_text])) =
     (Inr delete_db_decision,
      \<lparr>memory = [PDict [(''timestamp'', PStr ''2024-01-01T00:00:00''),
                        (''decision'', delete_db_decision)]],
       goals = [], world = sim_world [],
       trace = [Call ''containers.list'', Call ''images.list'', Call ''networks.list'',
                Call ''volumes.list'', Call ''llm.ainvoke'']\<rparr>) \<and>
   subscript delete_db_decision ''action'' = Inr (PStr ''delete_container'') \<and>
   PStr ''delete_container'' \<noteq> PStr ''none'' \<and>
   subscript delete_db_decision ''parameters'' = Inr (PDict [(''name'', PStr ''db'')]) \<and>
   execute_action sim_env (PStr ''delete_container'') (PDict [(''name'', PStr ''db'')])
     \<lparr>memory = [PDict [(''timestamp'', PStr ''2024-01-01T00:00:00''),
                       (''decision'', delete_db_decision)]],
      goals = [], world = sim_world [],
      trace = [Call ''containers.list'', Call ''images.list'', Call ''networks.list'',
               Call ''volumes.list'', Call ''llm.ainvoke'', LogInfo ''AI Decision: <json>'']\<rparr> =
     (Inr (PDict [(''message'', PStr ''Container deleted: db'')]),
      \<lparr>memory = [PDict [(''timestamp'', PStr ''2024-01-01T00:00:00''),
                        (''decision'', delete_db_decision)]],
       goals = [],
       world = \<lparr>sim_up = True,
                sim_containers = [\<lparr>cid = ''abc123'', cname = ''web'', cstatus = ''running'',
                                   cimage_tags = Inr [''nginx:latest'']\<rparr>],
                sim_replies = [], sim_clock = ''2024-01-01T00:00:00''\<rparr>,
       trace = [Call ''containers.list'', Call ''images.list'', Call ''networks.list'',
                Call ''volumes.list'', Call ''llm.ainvoke'', LogInfo ''AI Decision: <json>'',
                Call ''containers.get'', Call ''container.remove'']\<rparr>) \<and>
   ai_loop_body sim_env (initial (sim_world [delete_db_text])) =
     (Inr (),
      \<lparr>memory = [PDict [(''timestamp'', PStr ''2024-01-01T00:00:00''),
                        (''decision'', delete_db_decision)]],
       goals = [],
       world = \<lparr>sim_up = True,
                sim_containers = [\<lparr>cid = ''abc123'', cname = ''web'', cstatus = ''running'',
                                   cimage_tags = Inr [''nginx:latest'']\<rparr>],
                sim_replies = [], sim_clock = ''2024-01-01T00:00:00''\<rparr>,
       trace = [Call ''containers.list'', Call ''images.list'', Call ''networks.list'',
                Call ''volumes.list'', Call ''llm.ainvoke'', LogInfo ''AI Decision: <json>'',
                Call ''containers.get'', Call ''container.remove'',
                LogInfo ''Action Result: <json>'', Sleep 60]\<rparr>)"
proof -
  have ne: "PStr ''delete_container'' \<noteq> PStr ''none''"
    by simp
  have run: "execute_action sim_env (PStr ''delete_container'') (PDict [(''name'', PStr ''db'')])
     (\<lparr>memory = [PDict [(''timestamp'', PStr ''2024-01-01T00:00:00''),
                       (''decision'', delete_db_decision)]],
       goals = [], world = sim_world [],
       trace = [Call ''containers.list'', Call ''images.list'', Call ''networks.list'',
                Call ''volumes.list'', Call ''llm.ainvoke'']\<rparr>
      \<lparr>trace := trace \<lparr>memory = [PDict [(''timestamp'', PStr ''2024-01-01T00:00:00''),
                       (''decision'', delete_db_decision)]],
       goals = [], world = sim_world [],
       trace = [Call ''containers.list'', Call ''images.list'', Call ''networks.list'',
                Call ''volumes.list'', Call ''llm.ainvoke'']\<rparr> @
         [LogInfo (''AI Decision: '' @ json_dumps sim_env (Some 2) delete_db_decision)]\<rparr>) =
     (Inr (PDict [(''message'', PStr ''Container deleted: db'')]),
      \<lparr>memory = [PDict [(''timestamp'', PStr ''2024-01-01T00:00:00''),
                        (''decision'', delete_db_decision)]],
       goals = [],
       world = \<lparr>sim_up = True,
                sim_containers = [\<lparr>cid = ''abc123'', cname = ''web'', cstatus = ''running'',
                                   cimage_tags = Inr [''nginx:latest'']\<rparr>],
                sim_replies = [], sim_clock = ''2024-01-01T00:00:00''\<rparr>,
       trace = [Call ''containers.list'', Call ''images.list'', Call ''networks.list'',
                Call ''volumes.list'', Call ''llm.ainvoke'', LogInfo ''AI Decision: <json>'',
                Call ''containers.get'', Call ''container.remove'']\<rparr>)"
    by (simp add: sim_execute_delete_db) (simp add: sim_env_def)
  from action_result_is_logged [OF sim_think_delete_db delete_db_fields(1) ne
      delete_db_fields(2) run, of "''db''"]
  have "ai_loop_body sim_env (initial (sim_world [delete_db_text])) =
     (Inr (),
      \<lparr>memory = [PDict [(''timestamp'', PStr ''2024-01-01T00:00:00''),
                        (''decision'', delete_db_decision)]],
       goals = [],
       world = \<lparr>sim_up = True,
                sim_containers = [\<lparr>cid = ''abc123'', cname = ''web'', cstatus = ''running'',
                                   cimage_tags = Inr [''nginx:latest'']\<rparr>],
                sim_replies = [], sim_clock = ''2024-01-01T00:00:00''\<rparr>,
       trace = [Call ''containers.list'', Call ''images.list'', Call ''networks.list'',
                Call ''volumes.list'', Call ''llm.ainvoke'', LogInfo ''AI Decision: <json>'',
                Call ''containers.get'', Call ''container.remove'',
                LogInfo ''Action Result: <json>'', Sleep 60]\<rparr>)"
    by (simp add: sim_env_def)
  with sim_think_delete_db delete_db_fields sim_execute_delete_db show ?thesis
    by simp
qed

section \<open>Parameters that do not fit the handler\<close>

lemma bind_arguments_missing:
  assumes "r \<in> set (required sg)" and "map_of kvs r = None"
  shows "\<exists>t. bind_arguments sg kvs = Inl (TypeError t)"
proof (cases "first_bad_keyword sg (map fst kvs)")
  case (Some err)
  then show ?thesis by (simp add: bind_arguments_def)
next
  case None
  from assms have "r \<in> set (filter (\<lambda>r. map_of kvs r = None) (required sg))"
    by simp
  then obtain x xs where "filter (\<lambda>r. map_of kvs r = None) (required sg) = x # xs"
    by (cases "filter (\<lambda>r. map_of kvs r = None) (required sg)") auto
  with None show ?thesis by (simp add: bind_arguments_def)
qed

lemma execute_action_missing:
  assumes "map_of action_dispatch a = Some h"
    and "r \<in> set (required (handler_signature h))" and "map_of kvs r = None"
  shows "\<exists>t. execute_action env (PStr a) (PDict kvs) s = (Inl (TypeError t), s)"
proof -
  from bind_arguments_missing [OF assms(2,3)]
  obtain t where "bind_arguments (handler_signature h) kvs = Inl (TypeError t)" ..
  with assms(1) have "execute_action env (PStr a) (PDict kvs) s = (Inl (TypeError t), s)"
    by (simp add: execute_action_def bind_lift_Inr call_handler_def bind_eff_def lift_eff_def)
  then show ?thesis ..
qed

text \<open>
  Claim C4, as the code has it. For an action of the dispatch table and a parameter
  dictionary that lacks one of the handler's required names, \<^verbatim>\<open>execute_action\<close> does not
  return an error value: the call of the handler raises a \<^verbatim>\<open>TypeError\<close>, which leaves
  \<^verbatim>\<open>execute_action\<close> with the state untouched (no handler body has run). In the background
  loop that exception is caught by the iteration, logged and followed by the sleep, so
  the loop goes on. The value bound to a parameter is not inspected: \<^verbatim>\<open>delete_container\<close>
  receives as \<^verbatim>\<open>name\<close> whatever the dictionary holds.
\<close>

theorem missing_parameter_raises:
  assumes "map_of action_dispatch a = Some h"
    and "r \<in> set (required (handler_signature h))" and "map_of kvs r = None"
  shows "(\<exists>t. execute_action env (PStr a) (PDict kvs) s = (Inl (TypeError t), s)) \<and>
         (think env s0 = (Inr d, s) \<and> subscript d ''action'' = Inr (PStr a) \<and>
          subscript d ''parameters'' = Inr (PDict kvs) \<longrightarrow>
            (\<exists>t. ai_loop_iteration env s0 =
               (Inr (), s\<lparr>trace := trace s @
                  [LogInfo (''AI Decision: '' @ json_dumps env (Some 2) d),
                   LogError (''Error in AI loop: '' @ exception_str env (TypeError t)),
                   Sleep 60]\<rparr>))) \<and>
         execute_action env (PStr ''delete_container'') (PDict [(''name'', v)]) s =
           delete_container env v s"
proof (intro conjI impI)
  show "\<exists>t. execute_action env (PStr a) (PDict kvs) s = (Inl (TypeError t), s)"
    using assms by (rule execute_action_missing)
next
  assume "think env s0 = (Inr d, s) \<and> subscript d ''action'' = Inr (PStr a) \<and>
          subscript d ''parameters'' = Inr (PDict kvs)"
  then have th: "think env s0 = (Inr d, s)" and act: "subscript d ''action'' = Inr (PStr a)"
    and par: "subscript d ''parameters'' = Inr (PDict kvs)"
    by simp_all
  from assms(1) none_not_in_table have ne: "PStr a \<noteq> PStr ''none''"
    by auto
  from execute_action_missing [OF assms]
  obtain t where "execute_action env (PStr a) (PDict kvs)
      (s\<lparr>trace := trace s @ [LogInfo (''AI Decision: '' @ json_dumps env (Some 2) d)]\<rparr>) =
      (Inl (TypeError t),
       s\<lparr>trace := trace s @ [LogInfo (''AI Decision: '' @ json_dumps env (Some 2) d)]\<rparr>)"
    by blast
  from ai_loop_body_dispatches [OF th act ne par this]
  have "ai_loop_body env s0 =
      (Inl (TypeError t),
       s\<lparr>trace := trace s @ [LogInfo (''AI Decision: '' @ json_dumps env (Some 2) d)]\<rparr>)"
    by simp
  then have "ai_loop_iteration env s0 =
      (Inr (), s\<lparr>trace := trace s @
         [LogInfo (''AI Decision: '' @ json_dumps env (Some 2) d),
          LogError (''Error in AI loop: '' @ exception_str env (TypeError t)),
          Sleep 60]\<rparr>)"
    by (simp add: ai_loop_iteration_catches)
  then show "\<exists>t. ai_loop_iteration env s0 =
      (Inr (), s\<lparr>trace := trace s @
         [LogInfo (''AI Decision: '' @ json_dumps env (Some 2) d),
          LogError (''Error in AI loop: '' @ exception_str env (TypeError t)),
          Sleep 60]\<rparr>)" ..
next
  show "execute_action env (PStr ''delete_container'') (PDict [(''name'', v)]) s =
      delete_container env v s"
    by (rule execute_delete_container)
qed

text \<open>
  Claim C4 as stated asks for an error result. Dispatching \<^verbatim>\<open>delete_container\<close> with an
  empty parameter dictionary raises instead.
\<close>

theorem missing_parameter_is_not_a_result:
  "execute_action sim_env (PStr ''delete_container'') (PDict []) (initial (sim_world [])) =
     (Inl (TypeError (MissingArguments [''name''])), initial (sim_world []))"
  by (simp add: execute_action_def action_dispatch_def bind_lift_Inr call_handler_def
        bind_arguments_def bind_eff_def lift_eff_def)

lemma delete_unnamed_fields:
  "subscript delete_unnamed_decision ''action'' = Inr (PStr ''delete_container'')"
  "subscript delete_unnamed_decision ''parameters'' = Inr (PDict [])"
  by (simp_all add: delete_unnamed_decision_def)

theorem missing_parameter_raises_witness:
  "map_of action_dispatch ''delete_container'' = Some Delete_container \<and>
   ''name'' \<in> set (required (handler_signature Delete_container)) \<and>
   map_of ([] :: kwargs) ''name'' = None \<and>
   think sim_env (initial (sim_world [delete_unnamed_text])) =
     (Inr delete_unnamed_decision,
      \<lparr>memory = [PDict [(''timestamp'', PStr ''2024-01-01T00:00:00''),
                        (''decision'', delete_unnamed_decision)]],
       goals = [], world = sim_world [],
       trace = [Call ''containers.list'', Call ''images.list'', Call ''networks.list'',
                Call ''volumes.list'', Call ''llm.ainvoke'']\<rparr>) \<and>
   subscript delete_unnamed_decision ''action'' = Inr (PStr ''delete_container'') \<and>
   subscript delete_unnamed_decision ''parameters'' = Inr (PDict []) \<and>
   (\<exists>t. execute_action sim_env (PStr ''delete_container'') (PDict [])
      \<lparr>memory = [PDict [(''timestamp'', PStr ''2024-01-01T00:00:00''),
                        (''decision'', delete_unnamed_decision)]],
       goals = [], world = sim_world [],
       trace = [Call ''containers.list'', Call ''images.list'', Call ''networks.list'',
                Call ''volumes.list'', Call ''llm.ainvoke'']\<rparr> =
      (Inl (TypeError t),
       \<lparr>memory = [PDict [(''timestamp'', PStr ''2024-01-01T00:00:00''),
                        (''decision'', delete_unnamed_decision)]],
       goals = [], world = sim_world [],
       trace = [Call ''containers.list'', Call ''images.list'', Call ''networks.list'',
                Call ''volumes.list'', Call ''llm.ainvoke'']\<rparr>)) \<and>
   ai_loop_iteration sim_env (initial (sim_world [delete_unnamed_text])) =
     (Inr (),
      \<lparr>memory = [PDict [(''timestamp'', PStr ''2024-01-01T00:00:00''),
                        (''decision'', delete_unnamed_decision)]],
       goals = [], world = sim_world [],
       trace = [Call ''containers.list'', Call ''images.list'', Call ''networks.list'',
                Call ''volumes.list'', Call ''llm.ainvoke'',
                LogInfo ''AI Decision: <json>'',
                LogError ''Error in AI loop: <exception>'', Sleep 60]\<rparr>)"
proof -
  have table: "map_of action_dispatch ''delete_container'' = Some Delete_container"
    by (simp add: action_dispatch_def)
  have req: "''name'' \<in> set (required (handler_signature Delete_container))"
    by simp
  have absent: "map_of ([] :: kwargs) ''name'' = None"
    by simp
  note inst = missing_parameter_raises [OF table req absent, of sim_env
      "\<lparr>memory = [PDict [(''timestamp'', PStr ''2024-01-01T00:00:00''),
                        (''decision'', delete_unnamed_decision)]],
       goals = [], world = sim_world [],
       trace = [Call ''containers.list'', Call ''images.list'', Call ''networks.list'',
                Call ''volumes.list'', Call ''llm.ainvoke'']\<rparr>"
      "initial (sim_world [delete_unnamed_text])" delete_unnamed_decision]
  from inst sim_think_delete_unnamed delete_unnamed_fields
  have loop: "ai_loop_iteration sim_env (initial (sim_world [delete_unnamed_text])) =
     (Inr (),
      \<lparr>memory = [PDict [(''timestamp'', PStr ''2024-01-01T00:00:00''),
                        (''decision'', delete_unnamed_decision)]],
       goals = [], world = sim_world [],
       trace = [Call ''containers.list'', Call ''images.list'', Call ''networks.list'',
                Call ''volumes.list'', Call ''llm.ainvoke'',
                LogInfo ''AI Decision: <json>'',
                LogError ''Error in AI loop: <exception>'', Sleep 60]\<rparr>)"
    by (simp add: sim_env_def)
  from inst have "\<exists>t. execute_action sim_env (PStr ''delete_container'') (PDict [])
      \<lparr>memory = [PDict [(''timestamp'', PStr ''2024-01-01T00:00:00''),
                        (''decision'', delete_unnamed_decision)]],
       goals = [], world = sim_world [],
       trace = [Call ''containers.list'', Call ''images.list'', Call ''networks.list'',
                Call ''volumes.list'', Call ''llm.ainvoke'']\<rparr> =
      (Inl (TypeError t),
       \<lparr>memory = [PDict [(''timestamp'', PStr ''2024-01-01T00:00:00''),
                        (''decision'', delete_unnamed_decision)]],
       goals = [], world = sim_world [],
       trace = [Call ''containers.list'', Call ''images.list'', Call ''networks.list'',
                Call ''volumes.list'', Call ''llm.ainvoke'']\<rparr>)"
    by (rule conjunct1)
  with table req absent sim_think_delete_unnamed delete_unnamed_fields loop show ?thesis
    by (simp only: simp_thms)
qed

end
